theory Spec2Isabelle
  imports Complex_Main "HOL-Library.Word" "HOL-Library.Signed_Division"
begin

section \<open>The solar pool heater sketch (pool_heater-mk3.ino)\<close>

text \<open>
  The sketch is a set of global variables, a handful of callbacks that read and write
  them, a table of transitions registered with the state machine object in its
  initialisation routine, and the main loop that refreshes the inputs and then runs the
  state machine. The calls to \<^verbatim>\<open>Serial.println\<close> only print debugging text and are left
  out of the model.
\<close>

subsection \<open>Global variables\<close>

text \<open>
  \<^verbatim>\<open>int poolTemp, poolSet, coilTemp, coilSet; char statusBuffer[8]; int ledState, pumpState;\<close>
  An \<^verbatim>\<open>int\<close> of the AVR boards the sketch is written for has 16 bits; it is read as two's
  complement with \<open>sint\<close>, and addition wraps around.
\<close>

type_synonym c_int = "16 word"

record globals =
  poolTemp :: c_int
  poolSet :: c_int
  coilTemp :: c_int
  coilSet :: c_int
  statusBuffer :: "char list"
  ledState :: c_int
  pumpState :: c_int

definition statusBuffer_size :: nat where
  "statusBuffer_size = 8"

text \<open>
  Modelled from the spec: \<^verbatim>\<open>HIGH\<close> and \<^verbatim>\<open>LOW\<close> are constants of Arduino.h, which is not
  part of the sketch. The spec treats the pump and indicator outputs as booleans passed on
  with no inversion, so they are the values 1 (true) and 0 (false).
\<close>

definition HIGH :: c_int where
  "HIGH = 1"

definition LOW :: c_int where
  "LOW = 0"

subsection \<open>Events and states\<close>

datatype event =
  POOL_NOT_HEATED | POOL_HEATED | COIL_NOT_PRIMED | COIL_PRIMED | COIL_NOT_READY | COIL_READY

text \<open>
  The numbers the sketch gives the events with \<^verbatim>\<open>#define\<close>: six different ones, so the
  events are kept apart as the constructors of a datatype are.
\<close>

fun event_code :: "event \<Rightarrow> int" where
  "event_code POOL_NOT_HEATED = 0"
| "event_code POOL_HEATED = 1"
| "event_code COIL_NOT_PRIMED = 2"
| "event_code COIL_PRIMED = 3"
| "event_code COIL_NOT_READY = 4"
| "event_code COIL_READY = 5"

datatype state =
  check_pool_state | wait_state | heat_state | small_heat_state
  | check_coil_state | check_primed_state | pump_state

subsection \<open>C strings in a fixed buffer\<close>

definition NUL :: char where
  "NUL = CHR 0x00"

text \<open>
  \<^verbatim>\<open>strcpy(dst, src)\<close> writes the characters of \<open>src\<close> and a terminator over the start of
  \<open>dst\<close>. Writing past the end of the array is undefined in C++; the model returns \<open>None\<close>
  there, \<open>cap\<close> being the declared size of the array.
\<close>

definition strcpy :: "nat \<Rightarrow> char list \<Rightarrow> string \<Rightarrow> char list option" where
  "strcpy cap dst src =
     (if length src + 1 \<le> cap then Some (src @ NUL # drop (length src + 1) dst) else None)"

text \<open>The string a reader of the buffer sees: the characters before the first terminator.\<close>

definition c_str :: "char list \<Rightarrow> string" where
  "c_str buf = takeWhile (\<lambda>c. c \<noteq> NUL) buf"

subsection \<open>Callbacks\<close>

text \<open>
  The three checks only read the globals and hand one event to \<^verbatim>\<open>fsm.trigger\<close>: each is
  modelled as the function from the globals to that event. The comparisons are those of
  signed 16-bit integers, and \<^verbatim>\<open>poolTemp + 2\<close> is the machine addition.
\<close>

definition check_pool_temp :: "globals \<Rightarrow> event" where
  "check_pool_temp g =
     (if sint (poolTemp g) \<ge> sint (poolSet g) then POOL_HEATED else POOL_NOT_HEATED)"

definition check_coil_temp :: "globals \<Rightarrow> event" where
  "check_coil_temp g =
     (if sint (coilTemp g) \<ge> sint (coilSet g) then COIL_READY else COIL_NOT_READY)"

definition check_coil_primed :: "globals \<Rightarrow> event" where
  "check_coil_primed g =
     (if sint (coilTemp g) \<le> sint (poolTemp g + 2) then COIL_PRIMED else COIL_NOT_PRIMED)"

text \<open>The entry and exit actions only write globals; \<open>None\<close> is a \<^verbatim>\<open>strcpy\<close> out of bounds.\<close>

definition enter_wait_state :: "globals \<Rightarrow> globals option" where
  "enter_wait_state g =
     (case strcpy statusBuffer_size (statusBuffer g) ''WAIT...'' of
        None \<Rightarrow> None
      | Some b \<Rightarrow> Some (g\<lparr>statusBuffer := b\<rparr>))"

definition enter_heat_state :: "globals \<Rightarrow> globals option" where
  "enter_heat_state g =
     (case strcpy statusBuffer_size (statusBuffer g) ''HEAT...'' of
        None \<Rightarrow> None
      | Some b \<Rightarrow> Some (g\<lparr>statusBuffer := b\<rparr>))"

definition enter_pump_state :: "globals \<Rightarrow> globals option" where
  "enter_pump_state g =
     (let g1 = g\<lparr>ledState := HIGH\<rparr>;
          g2 = g1\<lparr>pumpState := HIGH\<rparr>
      in case strcpy statusBuffer_size (statusBuffer g2) ''PUMP...'' of
           None \<Rightarrow> None
         | Some b \<Rightarrow> Some (g2\<lparr>statusBuffer := b\<rparr>))"

definition exit_pump_state :: "globals \<Rightarrow> globals option" where
  "exit_pump_state g =
     (let g1 = g\<lparr>ledState := LOW\<rparr>;
          g2 = g1\<lparr>pumpState := LOW\<rparr>
      in Some g2)"

text \<open>
  A callback slot of a state holds a check, an action, or nothing (\<^verbatim>\<open>NULL\<close>). The two
  chimes are the callbacks a transition can carry.
\<close>

datatype callback = Check "globals \<Rightarrow> event" | Action "globals \<Rightarrow> globals option"

datatype beep = makeGoodBeep | makeBadBeep

record State =
  on_enter :: "callback option"
  on_state :: "callback option"
  on_exit :: "callback option"

text \<open>The seven \<^verbatim>\<open>State\<close> objects, as declared.\<close>

fun State_of :: "state \<Rightarrow> State" where
  "State_of check_pool_state =
     \<lparr>on_enter = Some (Check check_pool_temp), on_state = None, on_exit = None\<rparr>"
| "State_of wait_state =
     \<lparr>on_enter = Some (Action enter_wait_state), on_state = None, on_exit = None\<rparr>"
| "State_of heat_state =
     \<lparr>on_enter = Some (Action enter_heat_state), on_state = None, on_exit = None\<rparr>"
| "State_of small_heat_state =
     \<lparr>on_enter = Some (Action enter_heat_state), on_state = None, on_exit = None\<rparr>"
| "State_of check_coil_state =
     \<lparr>on_enter = Some (Check check_coil_temp), on_state = None, on_exit = None\<rparr>"
| "State_of check_primed_state =
     \<lparr>on_enter = Some (Check check_coil_primed), on_state = None, on_exit = None\<rparr>"
| "State_of pump_state =
     \<lparr>on_enter = Some (Action enter_pump_state), on_state = None,
      on_exit = Some (Action exit_pump_state)\<rparr>"

subsection \<open>The transition table\<close>

text \<open>
  The ten registrations of the initialisation routine, in the order of the source, with
  the intervals (in milliseconds) that are compiled in: 6000, 12000, 6000 and 2000.
\<close>

datatype registration =
  add_transition state state event "beep option"
  | add_timed_transition state state nat "beep option"

definition setup_transitions :: "registration list" where
  "setup_transitions =
    [add_transition check_pool_state wait_state POOL_HEATED (Some makeGoodBeep),
     add_timed_transition wait_state check_pool_state 6000 None,
     add_transition check_pool_state heat_state POOL_NOT_HEATED (Some makeGoodBeep),
     add_timed_transition heat_state check_coil_state 12000 (Some makeGoodBeep),
     add_transition check_coil_state small_heat_state COIL_NOT_READY None,
     add_timed_transition small_heat_state check_coil_state 6000 None,
     add_transition check_coil_state check_primed_state COIL_READY (Some makeGoodBeep),
     add_transition check_primed_state pump_state COIL_NOT_PRIMED (Some makeGoodBeep),
     add_timed_transition pump_state check_primed_state 2000 None,
     add_transition check_primed_state wait_state COIL_PRIMED (Some makeGoodBeep)]"

fun state_from :: "registration \<Rightarrow> state" where
  "state_from (add_transition s _ _ _) = s"
| "state_from (add_timed_transition s _ _ _) = s"

fun state_to :: "registration \<Rightarrow> state" where
  "state_to (add_transition _ s _ _) = s"
| "state_to (add_timed_transition _ s _ _) = s"

fun on_transition :: "registration \<Rightarrow> beep option" where
  "on_transition (add_transition _ _ _ b) = b"
| "on_transition (add_timed_transition _ _ _ b) = b"

fun is_timed :: "registration \<Rightarrow> bool" where
  "is_timed (add_transition _ _ _ _) = False"
| "is_timed (add_timed_transition _ _ _ _) = True"

fun on_event :: "event \<Rightarrow> registration \<Rightarrow> bool" where
  "on_event e (add_transition _ _ e' _) = (e' = e)"
| "on_event e (add_timed_transition _ _ _ _) = False"

text \<open>What the table holds for one state: everything, and by kind of trigger.\<close>

definition transitions_from :: "state \<Rightarrow> registration list" where
  "transitions_from s = filter (\<lambda>r. state_from r = s) setup_transitions"

definition event_transitions_from :: "state \<Rightarrow> registration list" where
  "event_transitions_from s = filter (\<lambda>r. \<not> is_timed r) (transitions_from s)"

definition timed_transitions_from :: "state \<Rightarrow> registration list" where
  "timed_transitions_from s = filter is_timed (transitions_from s)"

definition transitions_on :: "state \<Rightarrow> event \<Rightarrow> registration list" where
  "transitions_on s e = filter (on_event e) (transitions_from s)"

text \<open>
  The notification a transition gives when it fires: none for \<^verbatim>\<open>NULL\<close>, the success chime
  for \<^verbatim>\<open>makeGoodBeep\<close>, the failure chime for \<^verbatim>\<open>makeBadBeep\<close>.
\<close>

datatype notification = NONE | SUCCESS | FAILURE

fun notify :: "beep option \<Rightarrow> notification" where
  "notify None = NONE"
| "notify (Some makeGoodBeep) = SUCCESS"
| "notify (Some makeBadBeep) = FAILURE"

subsection \<open>Initialisation and the inputs of a cycle\<close>

text \<open>
  The globals have static storage, so they start as zeros, the buffer as eight
  terminators. The initialisation routine then sets the coil setpoint and both outputs.
\<close>

definition initial_globals :: globals where
  "initial_globals =
     \<lparr>poolTemp = 0, poolSet = 0, coilTemp = 0, coilSet = 0,
      statusBuffer = replicate statusBuffer_size NUL, ledState = 0, pumpState = 0\<rparr>"

definition setup_globals :: "globals \<Rightarrow> globals" where
  "setup_globals g =
     (let g1 = g\<lparr>coilSet := 90\<rparr>;
          g2 = g1\<lparr>ledState := LOW\<rparr>;
          g3 = g2\<lparr>pumpState := LOW\<rparr>
      in g3)"

text \<open>
  The conversion of a floating-point value to \<^verbatim>\<open>int\<close> drops the fraction, towards zero.
  The sensor value is taken as a real number; a value outside the range of \<^verbatim>\<open>int\<close> is
  undefined in C++ and wraps in the model.
\<close>

definition c_trunc :: "real \<Rightarrow> int" where
  "c_trunc x = (if 0 \<le> x then \<lfloor>x\<rfloor> else \<lceil>x\<rceil>)"

definition float_to_int :: "real \<Rightarrow> c_int" where
  "float_to_int x = word_of_int (c_trunc x)"

text \<open>\<^verbatim>\<open>poolTemp = sensors.getTempF(poolSensor) + 0.5;\<close> with the sensor's value \<open>r\<close>.\<close>

definition rounded_reading :: "real \<Rightarrow> c_int" where
  "rounded_reading r = float_to_int (r + 1 / 2)"

text \<open>
  Modelled from the spec: \<^verbatim>\<open>map\<close> is a function of the Arduino core, which is not part of
  the sketch. The spec has the setpoint mapped linearly from the raw dial range into the
  degree range; this is the core's integer formula for that, its division truncating as
  C++ division does. The core computes in \<^verbatim>\<open>long\<close>; with a 16-bit argument and the
  constants of the sketch no intermediate value leaves 32 bits.
\<close>

definition map_arduino :: "int \<Rightarrow> int \<Rightarrow> int \<Rightarrow> int \<Rightarrow> int \<Rightarrow> int" where
  "map_arduino x in_min in_max out_min out_max =
     (x - in_min) * (out_max - out_min) sdiv (in_max - in_min) + out_min"

text \<open>\<^verbatim>\<open>poolSet = map(analogRead(POT_PIN), 1023, 0, 50, 90);\<close> with the pin's value \<open>raw\<close>.\<close>

definition read_setpoint :: "c_int \<Rightarrow> c_int" where
  "read_setpoint raw = word_of_int (map_arduino (sint raw) 1023 0 50 90)"

text \<open>
  What one pass of the main loop reads: the two sensor values, the dial, and the
  milliseconds gone by since the last pass.
\<close>

record inputs =
  pool_reading :: real
  coil_reading :: real
  pot_reading :: c_int
  elapsed :: nat

definition read_inputs :: "inputs \<Rightarrow> globals \<Rightarrow> globals" where
  "read_inputs i g =
     (let g1 = g\<lparr>poolTemp := rounded_reading (pool_reading i)\<rparr>;
          g2 = g1\<lparr>coilTemp := rounded_reading (coil_reading i)\<rparr>;
          g3 = g2\<lparr>poolSet := read_setpoint (pot_reading i)\<rparr>
      in g3)"

subsection \<open>Everything the sketch can do to its globals\<close>

text \<open>
  The state machine object can only call the callbacks it was given. Whatever order it
  calls them in, the globals go through values that the initialisation, the input reads
  of the loop and the actions in \<open>A\<close> produce; \<open>all_actions\<close> are the actions of the seven
  states, \<open>entry_actions\<close> those in an entry slot.
\<close>

definition callbacks_of :: "state \<Rightarrow> callback option list" where
  "callbacks_of s = [on_enter (State_of s), on_state (State_of s), on_exit (State_of s)]"

definition all_actions :: "(globals \<Rightarrow> globals option) set" where
  "all_actions = {a. \<exists>s. Some (Action a) \<in> set (callbacks_of s)}"

definition entry_actions :: "(globals \<Rightarrow> globals option) set" where
  "entry_actions = {a. \<exists>s. on_enter (State_of s) = Some (Action a)}"

inductive after :: "(globals \<Rightarrow> globals option) set \<Rightarrow> globals \<Rightarrow> bool"
  for A :: "(globals \<Rightarrow> globals option) set" where
  after_setup: "after A (setup_globals initial_globals)"
| after_inputs: "after A g \<Longrightarrow> after A (read_inputs i g)"
| after_action: "after A g \<Longrightarrow> a \<in> A \<Longrightarrow> a g = Some g' \<Longrightarrow> after A g'"

subsection \<open>The state machine engine\<close>

text \<open>
  Modelled from the spec: the engine is the Fsm library (Fsm.h), which is not part of the
  sketch. The spec describes it so: the machine is in one state at a time and keeps the
  time spent in it, reset to zero on entry. Each cycle first evaluates the immediate
  condition of the current state if it is a decision state, which raises an event; if a
  transition is registered for the state and the event, it fires and the timer is not
  looked at. Otherwise, if the time in the state has reached the interval of the state's
  timed transition, that one fires. A transition that fires runs the exit action of the
  state it leaves, gives its notification, and runs the entry action of the state it
  enters; a cycle gives at most one notification.
\<close>

text \<open>
  Modelled from the spec: the state of the engine, which the Fsm library keeps in its own
  fields: the globals of the sketch, the current state and the time spent in it.
\<close>

record machine =
  vars :: globals
  current_state :: state
  time_in_state :: nat

definition initial_machine :: machine where
  "initial_machine =
     \<lparr>vars = setup_globals initial_globals, current_state = check_pool_state,
      time_in_state = 0\<rparr>"

fun run_action :: "callback option \<Rightarrow> globals \<Rightarrow> globals option" where
  "run_action (Some (Action a)) g = a g"
| "run_action (Some (Check c)) g = Some g"
| "run_action None g = Some g"

fun raised_event :: "callback option \<Rightarrow> globals \<Rightarrow> event option" where
  "raised_event (Some (Check c)) g = Some (c g)"
| "raised_event (Some (Action a)) g = None"
| "raised_event None g = None"

fun interval :: "registration \<Rightarrow> nat" where
  "interval (add_transition _ _ _ _) = 0"
| "interval (add_timed_transition _ _ n _) = n"

text \<open>
  Modelled from the spec: firing a transition (the library's own routine is not in the
  sketch). The exit action of the state left, then the notification, then the entry
  action of the state entered; the time in the state starts again from zero. A check in
  the entry slot is not run here: it is the condition the next cycle evaluates.
\<close>

definition make_transition :: "registration \<Rightarrow> machine \<Rightarrow> (machine \<times> notification) option" where
  "make_transition r m =
     (case run_action (on_exit (State_of (state_from r))) (vars m) of
        None \<Rightarrow> None
      | Some g1 \<Rightarrow>
          (case run_action (on_enter (State_of (state_to r))) g1 of
             None \<Rightarrow> None
           | Some g2 \<Rightarrow>
               Some (\<lparr>vars = g2, current_state = state_to r, time_in_state = 0\<rparr>,
                     notify (on_transition r))))"

text \<open>
  Modelled from the spec: the timer of the current state (the library's own routine is
  not in the sketch). The timed transition fires once the time in the state, with the
  time of this cycle, has reached its interval.
\<close>

definition check_timed_transitions :: "nat \<Rightarrow> machine \<Rightarrow> (machine \<times> notification) option" where
  "check_timed_transitions dt m =
     (case timed_transitions_from (current_state m) of
        [] \<Rightarrow> Some (m\<lparr>time_in_state := time_in_state m + dt\<rparr>, NONE)
      | r # _ \<Rightarrow>
          if interval r \<le> time_in_state m + dt then make_transition r m
          else Some (m\<lparr>time_in_state := time_in_state m + dt\<rparr>, NONE))"

text \<open>
  Modelled from the spec: one cycle of the engine (the library's \<^verbatim>\<open>run_machine\<close> is not in
  the sketch). The event of a decision state is looked at before the timer.
\<close>

definition tick :: "nat \<Rightarrow> machine \<Rightarrow> (machine \<times> notification) option" where
  "tick dt m =
     (case raised_event (on_enter (State_of (current_state m))) (vars m) of
        None \<Rightarrow> check_timed_transitions dt m
      | Some e \<Rightarrow>
          (case transitions_on (current_state m) e of
             [] \<Rightarrow> check_timed_transitions dt m
           | r # _ \<Rightarrow> make_transition r m))"

text \<open>
  One pass of the main loop: refresh the inputs, then run the machine. (The display and
  the two output pins are written in between, from the globals as they are then.)
\<close>

definition loop :: "inputs \<Rightarrow> machine \<Rightarrow> (machine \<times> notification) option" where
  "loop i m = tick (elapsed i) (m\<lparr>vars := read_inputs i (vars m)\<rparr>)"

fun run :: "inputs list \<Rightarrow> machine \<Rightarrow> machine option" where
  "run [] m = Some m"
| "run (i # is) m = (case loop i m of None \<Rightarrow> None | Some (m', _) \<Rightarrow> run is m')"

inductive reachable :: "machine \<Rightarrow> bool" where
  reachable_initial: "reachable initial_machine"
| reachable_loop: "reachable m \<Longrightarrow> loop i m = Some (m', n) \<Longrightarrow> reachable m'"

subsection \<open>Notions the properties are stated with\<close>

text \<open>
  The status labels a well-formed buffer can show, and what the spec means by the nearest
  integer to a reading: no integer is closer.
\<close>

definition label_ok :: "globals \<Rightarrow> bool" where
  "label_ok g \<longleftrightarrow> length (statusBuffer g) = statusBuffer_size
     \<and> c_str (statusBuffer g) \<in> {[], ''WAIT...'', ''HEAT...'', ''PUMP...''}"

text \<open>The pump and indicator variables agree with the current state of the machine.\<close>

definition pump_follows_state :: "machine \<Rightarrow> bool" where
  "pump_follows_state m \<longleftrightarrow>
     pumpState (vars m) = (if current_state m = pump_state then HIGH else LOW)
     \<and> ledState (vars m) = (if current_state m = pump_state then HIGH else LOW)"

definition spec_nearest_integer :: "real \<Rightarrow> int \<Rightarrow> bool" where
  "spec_nearest_integer r n \<longleftrightarrow> (\<forall>m::int. \<bar>r - of_int n\<bar> \<le> \<bar>r - of_int m\<bar>)"

section \<open>Properties of the transition table\<close>

lemma event_code_inj: "event_code e = event_code e' \<longleftrightarrow> e = e'"
  by (cases e; cases e') simp_all

lemma transitions_from_simps:
  "transitions_from check_pool_state =
     [add_transition check_pool_state wait_state POOL_HEATED (Some makeGoodBeep),
      add_transition check_pool_state heat_state POOL_NOT_HEATED (Some makeGoodBeep)]"
  "transitions_from wait_state = [add_timed_transition wait_state check_pool_state 6000 None]"
  "transitions_from heat_state =
     [add_timed_transition heat_state check_coil_state 12000 (Some makeGoodBeep)]"
  "transitions_from small_heat_state =
     [add_timed_transition small_heat_state check_coil_state 6000 None]"
  "transitions_from check_coil_state =
     [add_transition check_coil_state small_heat_state COIL_NOT_READY None,
      add_transition check_coil_state check_primed_state COIL_READY (Some makeGoodBeep)]"
  "transitions_from check_primed_state =
     [add_transition check_primed_state pump_state COIL_NOT_PRIMED (Some makeGoodBeep),
      add_transition check_primed_state wait_state COIL_PRIMED (Some makeGoodBeep)]"
  "transitions_from pump_state = [add_timed_transition pump_state check_primed_state 2000 None]"
  by (simp_all add: transitions_from_def setup_transitions_def)

text \<open>
  C5. Each of the four dwell states (wait, heat, small heat, pump) has exactly one
  registered outgoing transition, and it is a timed one: from wait to the pool check with
  no notification, from heat to the coil check with the success notification, from small
  heat to the coil check with no notification, and from pump to the priming check with no
  notification. None of the four has an event source: its entry callback is an action.
\<close>

theorem dwell_states_leave_by_timer_only:
  "map (\<lambda>r. (is_timed r, state_to r, notify (on_transition r))) (transitions_from wait_state)
     = [(True, check_pool_state, NONE)]
   \<and> map (\<lambda>r. (is_timed r, state_to r, notify (on_transition r))) (transitions_from heat_state)
     = [(True, check_coil_state, SUCCESS)]
   \<and> map (\<lambda>r. (is_timed r, state_to r, notify (on_transition r)))
       (transitions_from small_heat_state)
     = [(True, check_coil_state, NONE)]
   \<and> map (\<lambda>r. (is_timed r, state_to r, notify (on_transition r))) (transitions_from pump_state)
     = [(True, check_primed_state, NONE)]
   \<and> event_transitions_from wait_state = [] \<and> event_transitions_from heat_state = []
   \<and> event_transitions_from small_heat_state = [] \<and> event_transitions_from pump_state = []
   \<and> on_enter (State_of wait_state) = Some (Action enter_wait_state)
   \<and> on_enter (State_of heat_state) = Some (Action enter_heat_state)
   \<and> on_enter (State_of small_heat_state) = Some (Action enter_heat_state)
   \<and> on_enter (State_of pump_state) = Some (Action enter_pump_state)"
  by (simp add: transitions_from_simps event_transitions_from_def)

text \<open>
  C7, as stated: every state has at most one event-triggered transition registered. The
  pool check has two, one for each outcome of its test.
\<close>

theorem two_event_transitions_from_check_pool:
  "\<not> (length (event_transitions_from check_pool_state) \<le> 1
      \<and> length (timed_transitions_from check_pool_state) \<le> 1)"
  by (simp add: transitions_from_simps event_transitions_from_def)

text \<open>
  C7, amended: for every state and every event, at most one transition is registered
  from that state on that event, and for every state at most one timed transition is
  registered from it.
\<close>

theorem at_most_one_transition_per_trigger:
  "length (transitions_on s e) \<le> 1 \<and> length (timed_transitions_from s) \<le> 1"
  by (cases s; cases e)
     (simp_all add: transitions_from_simps transitions_on_def timed_transitions_from_def)

lemma transitions_on_simps:
  "transitions_on check_pool_state POOL_HEATED =
     [add_transition check_pool_state wait_state POOL_HEATED (Some makeGoodBeep)]"
  "transitions_on check_pool_state POOL_NOT_HEATED =
     [add_transition check_pool_state heat_state POOL_NOT_HEATED (Some makeGoodBeep)]"
  "transitions_on check_coil_state COIL_NOT_READY =
     [add_transition check_coil_state small_heat_state COIL_NOT_READY None]"
  "transitions_on check_coil_state COIL_READY =
     [add_transition check_coil_state check_primed_state COIL_READY (Some makeGoodBeep)]"
  "transitions_on check_primed_state COIL_NOT_PRIMED =
     [add_transition check_primed_state pump_state COIL_NOT_PRIMED (Some makeGoodBeep)]"
  "transitions_on check_primed_state COIL_PRIMED =
     [add_transition check_primed_state wait_state COIL_PRIMED (Some makeGoodBeep)]"
  by (simp_all add: transitions_on_def transitions_from_simps)

section \<open>The actions and the status buffer\<close>

text \<open>A literal of seven characters and its terminator fill the eight bytes exactly.\<close>

lemma strcpy_fits:
  "length src = 7 \<Longrightarrow> strcpy statusBuffer_size dst src = Some (src @ NUL # drop 8 dst)"
  by (simp add: strcpy_def statusBuffer_size_def)

lemma enter_wait_state_eq:
  "enter_wait_state g = Some (g\<lparr>statusBuffer := ''WAIT...'' @ NUL # drop 8 (statusBuffer g)\<rparr>)"
  by (simp add: enter_wait_state_def strcpy_fits)

lemma enter_heat_state_eq:
  "enter_heat_state g = Some (g\<lparr>statusBuffer := ''HEAT...'' @ NUL # drop 8 (statusBuffer g)\<rparr>)"
  by (simp add: enter_heat_state_def strcpy_fits)

lemma enter_pump_state_eq:
  "enter_pump_state g =
     Some (g\<lparr>ledState := HIGH, pumpState := HIGH,
             statusBuffer := ''PUMP...'' @ NUL # drop 8 (statusBuffer g)\<rparr>)"
  by (simp add: enter_pump_state_def strcpy_fits)

lemma exit_pump_state_eq:
  "exit_pump_state g = Some (g\<lparr>ledState := LOW, pumpState := LOW\<rparr>)"
  by (simp add: exit_pump_state_def)

lemma entry_labels:
  "\<exists>g'. enter_wait_state g = Some g' \<and> c_str (statusBuffer g') = ''WAIT...''"
  "\<exists>g'. enter_heat_state g = Some g' \<and> c_str (statusBuffer g') = ''HEAT...''"
  "\<exists>g'. enter_pump_state g = Some g' \<and> c_str (statusBuffer g') = ''PUMP...''"
  by (simp_all add: enter_wait_state_eq enter_heat_state_eq enter_pump_state_eq c_str_def NUL_def)

text \<open>The actions the seven states carry, read off their declarations.\<close>

lemma all_actions_eq:
  "all_actions = {enter_wait_state, enter_heat_state, enter_pump_state, exit_pump_state}"
proof
  show "all_actions \<subseteq> {enter_wait_state, enter_heat_state, enter_pump_state, exit_pump_state}"
  proof
    fix a assume "a \<in> all_actions"
    then obtain s where "Some (Action a) \<in> set (callbacks_of s)"
      by (auto simp: all_actions_def)
    then show "a \<in> {enter_wait_state, enter_heat_state, enter_pump_state, exit_pump_state}"
      by (cases s) (auto simp: callbacks_of_def)
  qed
next
  have "Some (Action enter_wait_state) \<in> set (callbacks_of wait_state)"
    "Some (Action enter_heat_state) \<in> set (callbacks_of heat_state)"
    "Some (Action enter_pump_state) \<in> set (callbacks_of pump_state)"
    "Some (Action exit_pump_state) \<in> set (callbacks_of pump_state)"
    by (simp_all add: callbacks_of_def)
  then show "{enter_wait_state, enter_heat_state, enter_pump_state, exit_pump_state} \<subseteq> all_actions"
    unfolding all_actions_def by blast
qed

lemma entry_actions_eq:
  "entry_actions = {enter_wait_state, enter_heat_state, enter_pump_state}"
proof
  show "entry_actions \<subseteq> {enter_wait_state, enter_heat_state, enter_pump_state}"
  proof
    fix a assume "a \<in> entry_actions"
    then obtain s where "on_enter (State_of s) = Some (Action a)"
      by (auto simp: entry_actions_def)
    then show "a \<in> {enter_wait_state, enter_heat_state, enter_pump_state}"
      by (cases s) auto
  qed
next
  have "on_enter (State_of wait_state) = Some (Action enter_wait_state)"
    "on_enter (State_of heat_state) = Some (Action enter_heat_state)"
    "on_enter (State_of pump_state) = Some (Action enter_pump_state)"
    by simp_all
  then show "{enter_wait_state, enter_heat_state, enter_pump_state} \<subseteq> entry_actions"
    unfolding entry_actions_def by blast
qed

lemma actions_total: "a \<in> all_actions \<Longrightarrow> \<exists>g'. a g = Some g'"
  by (auto simp: all_actions_eq
      enter_wait_state_eq enter_heat_state_eq enter_pump_state_eq exit_pump_state_eq)

lemma statusBuffer_read_inputs: "statusBuffer (read_inputs i g) = statusBuffer g"
  by (simp add: read_inputs_def)

lemma statusBuffer_setup: "statusBuffer (setup_globals initial_globals) = replicate 8 NUL"
  by (simp add: setup_globals_def initial_globals_def statusBuffer_size_def)

lemma label_ok_action:
  assumes "a \<in> all_actions" "a g = Some g'" "label_ok g"
  shows "label_ok g'"
  using assms
  by (auto simp: all_actions_eq label_ok_def statusBuffer_size_def c_str_def NUL_def
      enter_wait_state_eq enter_heat_state_eq enter_pump_state_eq exit_pump_state_eq)

lemma after_label_ok: "after all_actions g \<Longrightarrow> label_ok g"
proof (induction rule: after.induct)
  case after_setup
  show ?case
    by (simp add: label_ok_def statusBuffer_setup statusBuffer_size_def c_str_def)
next
  case (after_inputs g i)
  then show ?case by (simp add: label_ok_def statusBuffer_read_inputs)
next
  case (after_action g a g')
  then show ?case by (blast intro: label_ok_action)
qed

lemma before_entry_label:
  "after (all_actions - entry_actions) g \<Longrightarrow> statusBuffer g = replicate 8 NUL"
proof (induction rule: after.induct)
  case after_setup
  show ?case by (rule statusBuffer_setup)
next
  case (after_inputs g i)
  then show ?case by (simp add: statusBuffer_read_inputs)
next
  case (after_action g a g')
  from after_action.hyps(2) have "a = exit_pump_state"
    by (auto simp: all_actions_eq entry_actions_eq)
  with after_action show ?case by (auto simp: exit_pump_state_eq)
qed

lemma label_ok_length: "label_ok g \<Longrightarrow> length (c_str (statusBuffer g)) \<le> 7"
  by (auto simp: label_ok_def)

section \<open>The arithmetic of the priming check\<close>

lemma sint_plus_2:
  fixes x :: c_int
  assumes "sint x \<le> 32765"
  shows "sint (x + 2) = sint x + 2"
proof -
  have lo: "- (2 ^ 15) \<le> sint x" using sint_ge [of x] by simp
  have "sint (x + 2) = signed_take_bit 15 (sint x + 2)"
    by (simp add: sint_word_ariths)
  also have "\<dots> = sint x + 2"
    using lo assms by (intro signed_take_bit_int_eq_self) simp_all
  finally show ?thesis .
qed

text \<open>
  Up to 32765 the 16-bit sum poolTemp + 2 is the sum of the numbers (the lemma above).
  Past that bound the addition wraps: with poolTemp at 32767 the sum reads as -32767, and
  a coil at 0 degrees counts as not primed.
\<close>

lemma check_coil_primed_wraps:
  "check_coil_primed (initial_globals\<lparr>coilTemp := 0, poolTemp := 32767\<rparr>) = COIL_NOT_PRIMED"
  by (simp add: check_coil_primed_def)

section \<open>Rounding the sensor values\<close>

text \<open>
  From -1/2 upwards, adding a half and dropping the fraction gives a nearest integer.
\<close>

lemma rounded_nearest_from_minus_half:
  assumes "- 1 / 2 \<le> r"
  shows "spec_nearest_integer r (c_trunc (r + 1 / 2))"
proof -
  define n where "n = \<lfloor>r + 1 / 2\<rfloor>"
  have n: "of_int n \<le> r + 1 / 2" "r + 1 / 2 < of_int n + 1"
    unfolding n_def by linarith+
  have c: "c_trunc (r + 1 / 2) = n"
    using assms by (simp add: c_trunc_def n_def)
  have "\<bar>r - of_int n\<bar> \<le> \<bar>r - of_int m\<bar>" for m :: int
  proof (cases "m \<le> n")
    case True
    then consider "m = n" | "m \<le> n - 1" by linarith
    then show ?thesis
    proof cases
      case 1
      then show ?thesis by simp
    next
      case 2
      then have "(of_int m :: real) \<le> of_int n - 1"
        by (metis of_int_1 of_int_diff of_int_le_iff)
      with n show ?thesis by linarith
    qed
  next
    case False
    then have "n + 1 \<le> m" by linarith
    then have "(of_int n :: real) + 1 \<le> of_int m"
      by (metis of_int_1 of_int_add of_int_le_iff)
    with n show ?thesis by linarith
  qed
  with c show ?thesis by (simp add: spec_nearest_integer_def)
qed

text \<open>
  C9, at the sensor value -10.0: the nearest integer is -10, and the loop stores -9.
\<close>

theorem rounded_reading_of_minus_ten:
  "sint (rounded_reading (- 10)) = - 9
   \<and> spec_nearest_integer (- 10) (- 10)
   \<and> \<not> spec_nearest_integer (- 10) (sint (rounded_reading (- 10)))"
proof -
  have v: "sint (rounded_reading (- 10)) = - 9"
    by (simp add: rounded_reading_def float_to_int_def c_trunc_def)
  have "spec_nearest_integer (- 10) (- 10)"
    by (simp add: spec_nearest_integer_def)
  moreover have "\<not> spec_nearest_integer (- 10) (- 9)"
    by (auto simp: spec_nearest_integer_def intro: exI [of _ "- 10"])
  ultimately show ?thesis using v by simp
qed

section \<open>The status label\<close>

text \<open>
  C10. Each of the three literals has seven characters, so with its terminator it fills
  the eight bytes of the buffer and every strcpy of an action fits: no action ever
  fails. Whatever callbacks the state machine calls and in whatever order, the buffer
  keeps its eight bytes and the label it shows is empty or one of the three literals, so
  it has at most seven characters. The decision states carry no action, only a check,
  which writes nothing; the label is empty after the initialisation and stays empty as
  long as no entry action has run.
\<close>

theorem status_labels_fit_the_buffer:
  "length ''WAIT...'' = 7 \<and> length ''HEAT...'' = 7 \<and> length ''PUMP...'' = 7
   \<and> strcpy statusBuffer_size b ''WAIT...'' = Some (''WAIT...'' @ NUL # drop 8 b)
   \<and> strcpy statusBuffer_size b ''HEAT...'' = Some (''HEAT...'' @ NUL # drop 8 b)
   \<and> strcpy statusBuffer_size b ''PUMP...'' = Some (''PUMP...'' @ NUL # drop 8 b)
   \<and> (\<forall>a\<in>all_actions. \<exists>g'. a g = Some g')
   \<and> (after all_actions g \<longrightarrow>
        length (statusBuffer g) = statusBuffer_size
        \<and> c_str (statusBuffer g) \<in> {[], ''WAIT...'', ''HEAT...'', ''PUMP...''}
        \<and> length (c_str (statusBuffer g)) \<le> 7)
   \<and> callbacks_of check_pool_state = [Some (Check check_pool_temp), None, None]
   \<and> callbacks_of check_coil_state = [Some (Check check_coil_temp), None, None]
   \<and> callbacks_of check_primed_state = [Some (Check check_coil_primed), None, None]
   \<and> c_str (statusBuffer (setup_globals initial_globals)) = []
   \<and> (after (all_actions - entry_actions) g \<longrightarrow> c_str (statusBuffer g) = [])"
proof -
  have lits: "strcpy statusBuffer_size b ''WAIT...'' = Some (''WAIT...'' @ NUL # drop 8 b)"
    "strcpy statusBuffer_size b ''HEAT...'' = Some (''HEAT...'' @ NUL # drop 8 b)"
    "strcpy statusBuffer_size b ''PUMP...'' = Some (''PUMP...'' @ NUL # drop 8 b)"
    by (simp_all add: strcpy_fits)
  have total: "\<forall>a\<in>all_actions. \<exists>g'. a g = Some g'"
    by (blast dest: actions_total)
  have inv: "after all_actions g \<longrightarrow>
        length (statusBuffer g) = statusBuffer_size
        \<and> c_str (statusBuffer g) \<in> {[], ''WAIT...'', ''HEAT...'', ''PUMP...''}
        \<and> length (c_str (statusBuffer g)) \<le> 7"
    using after_label_ok [of g] label_ok_length [of g] by (simp add: label_ok_def)
  have checks: "callbacks_of check_pool_state = [Some (Check check_pool_temp), None, None]"
    "callbacks_of check_coil_state = [Some (Check check_coil_temp), None, None]"
    "callbacks_of check_primed_state = [Some (Check check_coil_primed), None, None]"
    by (simp_all add: callbacks_of_def)
  have empty: "c_str (replicate 8 NUL) = []"
    by (simp add: c_str_def numeral_eq_Suc)
  have first: "c_str (statusBuffer (setup_globals initial_globals)) = []"
    by (simp add: statusBuffer_setup empty)
  have before: "after (all_actions - entry_actions) g \<longrightarrow> c_str (statusBuffer g) = []"
    by (simp add: before_entry_label empty)
  from lits total inv checks first before show ?thesis by simp
qed

theorem status_labels_fit_the_buffer_witness:
  "enter_heat_state \<in> all_actions
   \<and> after all_actions
        \<lparr>poolTemp = 0, poolSet = 0, coilTemp = 0, coilSet = 90,
         statusBuffer = ''HEAT...'' @ [NUL], ledState = 0, pumpState = 0\<rparr>
   \<and> length (c_str (''HEAT...'' @ [NUL])) \<le> 7
   \<and> after (all_actions - entry_actions) (setup_globals initial_globals)"
proof -
  let ?g = "\<lparr>poolTemp = 0, poolSet = 0, coilTemp = 0, coilSet = 90,
         statusBuffer = ''HEAT...'' @ [NUL], ledState = 0, pumpState = 0\<rparr>"
  have mem: "enter_heat_state \<in> all_actions"
    by (simp add: all_actions_eq)
  have step: "enter_heat_state (setup_globals initial_globals) = Some ?g"
    by (simp add: enter_heat_state_eq setup_globals_def initial_globals_def
        statusBuffer_size_def LOW_def)
  have reach: "after all_actions ?g"
    using after_action [OF after_setup mem step] .
  have start: "after (all_actions - entry_actions) (setup_globals initial_globals)"
    by (rule after_setup)
  show ?thesis
    using status_labels_fit_the_buffer [of "[]" ?g] mem reach start by simp
qed

section \<open>The setpoint dial\<close>

lemma sdiv_nonpos_neg:
  fixes a b :: int
  assumes "a \<le> 0" "b < 0"
  shows "a sdiv b = (- a) div (- b)"
  using assms by (cases "a = 0") (simp_all add: signed_divide_int_def sgn_if)

lemma map_arduino_dial:
  assumes "0 \<le> x" "x \<le> 1023"
  shows "map_arduino x 1023 0 50 90 = 50 + (40 * (1023 - x)) div 1023"
proof -
  have "(x - 1023) * 40 sdiv (- 1023) = (- ((x - 1023) * 40)) div (- (- 1023))"
    using assms by (intro sdiv_nonpos_neg) simp_all
  then show ?thesis by (simp add: map_arduino_def algebra_simps)
qed

lemma dial_quotient_bounds:
  fixes x :: int
  assumes "0 \<le> x" "x \<le> 1023"
  shows "0 \<le> (40 * (1023 - x)) div 1023" "(40 * (1023 - x)) div 1023 \<le> 40"
  using assms by simp_all

lemma sint_read_setpoint:
  assumes "0 \<le> sint raw" "sint raw \<le> 1023"
  shows "sint (read_setpoint raw) = 50 + (40 * (1023 - sint raw)) div 1023"
proof -
  let ?k = "50 + (40 * (1023 - sint raw)) div 1023"
  have b: "50 \<le> ?k" "?k \<le> 90"
    using dial_quotient_bounds [OF assms] by simp_all
  have "read_setpoint raw = word_of_int ?k"
    by (simp only: read_setpoint_def map_arduino_dial [OF assms])
  then have "sint (read_setpoint raw) = signed_take_bit (LENGTH(16) - 1) ?k"
    by (simp only: sint_sbintrunc')
  also have "\<dots> = ?k"
    using b by (intro signed_take_bit_int_eq_self) simp_all
  finally show ?thesis .
qed

text \<open>
  C8. For every raw dial value from 0 to 1023 the setpoint of the cycle is an integer
  from 50 to 90: the point of the line from (1023, 50) to (0, 90), rounded down. The raw
  value 1023 gives 50, the raw value 0 gives 90, and a larger raw value never gives a
  larger setpoint.
\<close>

theorem read_setpoint_range:
  "(0 \<le> sint raw \<and> sint raw \<le> 1023 \<longrightarrow>
      50 \<le> sint (read_setpoint raw) \<and> sint (read_setpoint raw) \<le> 90
      \<and> sint (read_setpoint raw) = 50 + (40 * (1023 - sint raw)) div 1023)
   \<and> sint (read_setpoint 1023) = 50 \<and> sint (read_setpoint 0) = 90
   \<and> (0 \<le> sint raw \<and> sint raw \<le> sint raw' \<and> sint raw' \<le> 1023 \<longrightarrow>
        sint (read_setpoint raw') \<le> sint (read_setpoint raw))"
proof -
  have range: "0 \<le> sint raw \<and> sint raw \<le> 1023 \<longrightarrow>
      50 \<le> sint (read_setpoint raw) \<and> sint (read_setpoint raw) \<le> 90
      \<and> sint (read_setpoint raw) = 50 + (40 * (1023 - sint raw)) div 1023"
    using dial_quotient_bounds [of "sint raw"] by (simp add: sint_read_setpoint)
  have hi: "sint (read_setpoint 1023) = 50"
    by (subst sint_read_setpoint) simp_all
  have lo: "sint (read_setpoint 0) = 90"
    by (subst sint_read_setpoint) simp_all
  have anti: "0 \<le> sint raw \<and> sint raw \<le> sint raw' \<and> sint raw' \<le> 1023 \<longrightarrow>
        sint (read_setpoint raw') \<le> sint (read_setpoint raw)"
  proof (intro impI, elim conjE)
    assume a: "0 \<le> sint raw" "sint raw \<le> sint raw'" "sint raw' \<le> 1023"
    then have "(40 * (1023 - sint raw')) div 1023 \<le> (40 * (1023 - sint raw)) div 1023"
      by (intro zdiv_mono1) simp_all
    with a show "sint (read_setpoint raw') \<le> sint (read_setpoint raw)"
      by (simp add: sint_read_setpoint)
  qed
  from range hi lo anti show ?thesis by blast
qed

theorem read_setpoint_range_witness:
  "0 \<le> sint (512 :: c_int) \<and> sint (512 :: c_int) \<le> 1023
   \<and> sint (read_setpoint 512) = 69
   \<and> sint (256 :: c_int) \<le> sint (512 :: c_int)
   \<and> sint (read_setpoint 512) \<le> sint (read_setpoint 256)"
  using read_setpoint_range [of 512 512] read_setpoint_range [of 256 512]
  by simp

section \<open>The engine\<close>

lemma HIGH_neq_LOW: "HIGH \<noteq> LOW"
  by (simp add: HIGH_def LOW_def)

lemma transitions_from_subset:
  "r \<in> set (transitions_from s) \<Longrightarrow> r \<in> set setup_transitions \<and> state_from r = s"
  by (simp add: transitions_from_def)

lemma transitions_on_subset:
  "r \<in> set (transitions_on s e) \<Longrightarrow> r \<in> set setup_transitions \<and> state_from r = s"
  using transitions_from_subset [of r s] by (simp add: transitions_on_def)

lemma timed_transitions_from_subset:
  "r \<in> set (timed_transitions_from s) \<Longrightarrow> r \<in> set setup_transitions \<and> state_from r = s"
  using transitions_from_subset [of r s] by (simp add: timed_transitions_from_def)

lemma run_action_total:
  "\<exists>g'. run_action (on_exit (State_of s)) g = Some g'"
  "\<exists>g'. run_action (on_enter (State_of s)) g = Some g'"
  by (cases s; simp add: enter_wait_state_eq enter_heat_state_eq enter_pump_state_eq
      exit_pump_state_eq)+

lemma make_transition_total:
  "\<exists>m'. make_transition r m = Some (m', notify (on_transition r))
     \<and> current_state m' = state_to r"
proof -
  obtain g1 where g1: "run_action (on_exit (State_of (state_from r))) (vars m) = Some g1"
    using run_action_total(1) by blast
  obtain g2 where g2: "run_action (on_enter (State_of (state_to r))) g1 = Some g2"
    using run_action_total(2) by blast
  show ?thesis by (simp add: make_transition_def g1 g2)
qed

lemma make_transition_result:
  assumes "make_transition r m = Some (m', n)"
  shows "current_state m' = state_to r" "n = notify (on_transition r)" "time_in_state m' = 0"
  using assms by (auto simp: make_transition_def split: option.splits)

lemma run_action_exit_pump:
  assumes "run_action (on_exit (State_of s)) g = Some g1"
    and "pumpState g = (if s = pump_state then HIGH else LOW)"
    and "ledState g = (if s = pump_state then HIGH else LOW)"
  shows "pumpState g1 = LOW \<and> ledState g1 = LOW"
  using assms by (cases s) (auto simp: exit_pump_state_eq)

lemma run_action_enter_pump:
  assumes "run_action (on_enter (State_of s)) g1 = Some g2"
    and "pumpState g1 = LOW" "ledState g1 = LOW"
  shows "pumpState g2 = (if s = pump_state then HIGH else LOW)
     \<and> ledState g2 = (if s = pump_state then HIGH else LOW)"
  using assms
  by (cases s) (auto simp: enter_wait_state_eq enter_heat_state_eq enter_pump_state_eq)

lemma make_transition_pump:
  assumes "make_transition r m = Some (m', n)" "state_from r = current_state m"
    and "pump_follows_state m"
  shows "pump_follows_state m'"
proof -
  from assms(1) obtain g1 g2 where
    g1: "run_action (on_exit (State_of (state_from r))) (vars m) = Some g1" and
    g2: "run_action (on_enter (State_of (state_to r))) g1 = Some g2" and
    m': "m' = \<lparr>vars = g2, current_state = state_to r, time_in_state = 0\<rparr>"
    by (auto simp: make_transition_def split: option.splits)
  from assms(2,3) have "pumpState g1 = LOW \<and> ledState g1 = LOW"
    by (intro run_action_exit_pump [OF g1]) (simp_all add: pump_follows_state_def)
  then have "pumpState g2 = (if state_to r = pump_state then HIGH else LOW)
     \<and> ledState g2 = (if state_to r = pump_state then HIGH else LOW)"
    by (intro run_action_enter_pump [OF g2]) simp_all
  then show ?thesis by (simp add: pump_follows_state_def m')
qed

text \<open>A cycle either leaves the machine where it is or fires one registered transition.\<close>

lemma check_timed_transitions_cases:
  assumes "check_timed_transitions dt m = Some (m', n)"
  shows "(m' = m\<lparr>time_in_state := time_in_state m + dt\<rparr> \<and> n = NONE)
     \<or> (\<exists>r\<in>set setup_transitions. state_from r = current_state m
           \<and> make_transition r m = Some (m', n))"
proof (cases "timed_transitions_from (current_state m)")
  case Nil
  with assms show ?thesis by (auto simp: check_timed_transitions_def)
next
  case (Cons r rest)
  then have "r \<in> set (timed_transitions_from (current_state m))" by simp
  then have "r \<in> set setup_transitions \<and> state_from r = current_state m"
    by (rule timed_transitions_from_subset)
  with Cons assms show ?thesis
    by (auto simp: check_timed_transitions_def split: if_splits)
qed

lemma tick_cases:
  assumes "tick dt m = Some (m', n)"
  shows "(m' = m\<lparr>time_in_state := time_in_state m + dt\<rparr> \<and> n = NONE)
     \<or> (\<exists>r\<in>set setup_transitions. state_from r = current_state m
           \<and> make_transition r m = Some (m', n))"
proof (cases "raised_event (on_enter (State_of (current_state m))) (vars m)")
  case None
  with assms show ?thesis
    by (intro check_timed_transitions_cases) (simp add: tick_def)
next
  case (Some e)
  show ?thesis
  proof (cases "transitions_on (current_state m) e")
    case Nil
    with Some assms show ?thesis
      by (intro check_timed_transitions_cases) (simp add: tick_def)
  next
    case (Cons r rest)
    then have "r \<in> set (transitions_on (current_state m) e)" by simp
    then have "r \<in> set setup_transitions \<and> state_from r = current_state m"
      by (rule transitions_on_subset)
    with Some Cons assms show ?thesis by (auto simp: tick_def)
  qed
qed

lemma make_transition_some: "\<exists>m' n. make_transition r m = Some (m', n)"
  using make_transition_total [of r m] by blast

lemma check_timed_transitions_total: "\<exists>m' n. check_timed_transitions dt m = Some (m', n)"
  by (simp add: check_timed_transitions_def make_transition_some split: list.splits)

lemma tick_total: "\<exists>m' n. tick dt m = Some (m', n)"
  by (simp add: tick_def make_transition_some check_timed_transitions_total
      split: option.splits list.splits)

lemma loop_total: "\<exists>m' n. loop i m = Some (m', n)"
  by (simp add: loop_def tick_total)

lemma registered_notifications:
  "r \<in> set setup_transitions \<Longrightarrow> notify (on_transition r) = NONE \<or> notify (on_transition r) = SUCCESS"
  by (auto simp: setup_transitions_def)

lemma tick_notification:
  assumes "tick dt m = Some (m', n)"
  shows "n = NONE \<or> n = SUCCESS"
  using tick_cases [OF assms] registered_notifications
  by (auto dest: make_transition_result(2))

text \<open>
  Under this engine a decision state is left in the cycle that finds the machine in it,
  by the transition of the event its check raises.
\<close>

lemma tick_check_pool:
  assumes "current_state m = check_pool_state"
  shows "\<exists>m'. tick dt m = Some (m', SUCCESS) \<and> current_state m' =
     (if sint (poolTemp (vars m)) \<ge> sint (poolSet (vars m)) then wait_state else heat_state)"
  using assms make_transition_total
    [of "add_transition check_pool_state wait_state POOL_HEATED (Some makeGoodBeep)" m]
    make_transition_total
    [of "add_transition check_pool_state heat_state POOL_NOT_HEATED (Some makeGoodBeep)" m]
  by (auto simp: tick_def check_pool_temp_def transitions_on_simps)

lemma tick_check_coil:
  assumes "current_state m = check_coil_state"
  shows "\<exists>m' n. tick dt m = Some (m', n) \<and> (current_state m', n) =
     (if sint (coilTemp (vars m)) \<ge> sint (coilSet (vars m)) then (check_primed_state, SUCCESS)
      else (small_heat_state, NONE))"
  using assms make_transition_total
    [of "add_transition check_coil_state check_primed_state COIL_READY (Some makeGoodBeep)" m]
    make_transition_total
    [of "add_transition check_coil_state small_heat_state COIL_NOT_READY None" m]
  by (auto simp: tick_def check_coil_temp_def transitions_on_simps)

lemma tick_check_primed:
  assumes "current_state m = check_primed_state"
  shows "\<exists>m'. tick dt m = Some (m', SUCCESS) \<and> current_state m' =
     (if sint (coilTemp (vars m)) \<le> sint (poolTemp (vars m) + 2) then wait_state
      else pump_state)"
  using assms make_transition_total
    [of "add_transition check_primed_state wait_state COIL_PRIMED (Some makeGoodBeep)" m]
    make_transition_total
    [of "add_transition check_primed_state pump_state COIL_NOT_PRIMED (Some makeGoodBeep)" m]
  by (auto simp: tick_def check_coil_primed_def transitions_on_simps)

lemma tick_pump:
  assumes "tick dt m = Some (m', n)" "pump_follows_state m"
  shows "pump_follows_state m'"
  using tick_cases [OF assms(1)] assms(2)
  by (auto simp: pump_follows_state_def [of "m\<lparr>time_in_state := time_in_state m + dt\<rparr>"]
      pump_follows_state_def [of m] intro: make_transition_pump
      simp del: )

lemma pumpState_read_inputs:
  "pumpState (read_inputs i g) = pumpState g" "ledState (read_inputs i g) = ledState g"
  by (simp_all add: read_inputs_def)

lemma loop_pump:
  assumes "loop i m = Some (m', n)" "pump_follows_state m"
  shows "pump_follows_state m'"
proof -
  have "pump_follows_state (m\<lparr>vars := read_inputs i (vars m)\<rparr>)"
    using assms(2) by (simp add: pump_follows_state_def pumpState_read_inputs)
  with assms(1) show ?thesis unfolding loop_def by (rule tick_pump)
qed

lemma reachable_pump: "reachable m \<Longrightarrow> pump_follows_state m"
proof (induction rule: reachable.induct)
  case reachable_initial
  show ?case
    by (simp add: pump_follows_state_def initial_machine_def setup_globals_def)
next
  case (reachable_loop m i m' n)
  then show ?case by (blast intro: loop_pump)
qed

lemma run_reachable: "reachable m \<Longrightarrow> run is m = Some m' \<Longrightarrow> reachable m'"
proof (induction "is" arbitrary: m)
  case Nil
  then show ?case by simp
next
  case (Cons i "is")
  then show ?case
    by (auto split: option.splits intro: reachable_loop)
qed

lemma timed_transitions_from_simps:
  "timed_transitions_from check_pool_state = []"
  "timed_transitions_from wait_state = [add_timed_transition wait_state check_pool_state 6000 None]"
  "timed_transitions_from heat_state =
     [add_timed_transition heat_state check_coil_state 12000 (Some makeGoodBeep)]"
  "timed_transitions_from small_heat_state =
     [add_timed_transition small_heat_state check_coil_state 6000 None]"
  "timed_transitions_from check_coil_state = []"
  "timed_transitions_from check_primed_state = []"
  "timed_transitions_from pump_state = [add_timed_transition pump_state check_primed_state 2000 None]"
  by (simp_all add: timed_transitions_from_def transitions_from_simps)

section \<open>The pump output\<close>

text \<open>
  C1. The pump state's entry action sets the pump and the indicator high and its exit
  action sets them low; the initialisation sets the pump low, and neither the input reads
  of the loop nor any other action of a state changes it. In every state the machine
  reaches, the pump variable is high exactly when the current state is the pump state and
  low otherwise; in particular it is low at the end of the cycle that leaves the pump
  state.
\<close>

theorem pump_high_exactly_in_pump_state:
  "on_enter (State_of pump_state) = Some (Action enter_pump_state)
   \<and> on_exit (State_of pump_state) = Some (Action exit_pump_state)
   \<and> (\<exists>g'. enter_pump_state g = Some g' \<and> pumpState g' = HIGH \<and> ledState g' = HIGH)
   \<and> (\<exists>g'. exit_pump_state g = Some g' \<and> pumpState g' = LOW \<and> ledState g' = LOW)
   \<and> pumpState (setup_globals g) = LOW
   \<and> pumpState (read_inputs i g) = pumpState g
   \<and> (\<forall>a\<in>all_actions. a = enter_pump_state \<or> a = exit_pump_state
         \<or> (\<forall>g'. a g = Some g' \<longrightarrow> pumpState g' = pumpState g))
   \<and> (reachable m \<longrightarrow>
         (pumpState (vars m) = HIGH \<longleftrightarrow> current_state m = pump_state)
         \<and> (pumpState (vars m) = LOW \<longleftrightarrow> current_state m \<noteq> pump_state))
   \<and> (reachable m \<and> current_state m = pump_state \<and> loop i m = Some (m', n)
         \<and> current_state m' \<noteq> pump_state \<longrightarrow> pumpState (vars m') = LOW)"
proof -
  have acts: "(\<exists>g'. enter_pump_state g = Some g' \<and> pumpState g' = HIGH \<and> ledState g' = HIGH)"
    "(\<exists>g'. exit_pump_state g = Some g' \<and> pumpState g' = LOW \<and> ledState g' = LOW)"
    by (simp_all add: enter_pump_state_eq exit_pump_state_eq)
  have init: "pumpState (setup_globals g) = LOW"
    by (simp add: setup_globals_def)
  have others: "\<forall>a\<in>all_actions. a = enter_pump_state \<or> a = exit_pump_state
         \<or> (\<forall>g'. a g = Some g' \<longrightarrow> pumpState g' = pumpState g)"
    by (auto simp: all_actions_eq enter_wait_state_eq enter_heat_state_eq)
  have inv: "reachable m \<longrightarrow>
         (pumpState (vars m) = HIGH \<longleftrightarrow> current_state m = pump_state)
         \<and> (pumpState (vars m) = LOW \<longleftrightarrow> current_state m \<noteq> pump_state)"
    using reachable_pump [of m] HIGH_neq_LOW by (auto simp: pump_follows_state_def)
  have leave: "reachable m \<and> current_state m = pump_state \<and> loop i m = Some (m', n)
         \<and> current_state m' \<noteq> pump_state \<longrightarrow> pumpState (vars m') = LOW"
  proof (intro impI, elim conjE)
    assume "reachable m" "loop i m = Some (m', n)" "current_state m' \<noteq> pump_state"
    then have "pump_follows_state m'" "current_state m' \<noteq> pump_state"
      by (auto intro: loop_pump reachable_pump)
    then show "pumpState (vars m') = LOW" by (simp add: pump_follows_state_def)
  qed
  from acts init others inv leave show ?thesis
    by (simp add: pumpState_read_inputs)
qed

lemma scenario_to_pump:
  "run [\<lparr>pool_reading = 70, coil_reading = 95, pot_reading = 255, elapsed = 100\<rparr>,
        \<lparr>pool_reading = 70, coil_reading = 95, pot_reading = 255, elapsed = 12000\<rparr>,
        \<lparr>pool_reading = 70, coil_reading = 95, pot_reading = 255, elapsed = 100\<rparr>,
        \<lparr>pool_reading = 70, coil_reading = 95, pot_reading = 255, elapsed = 100\<rparr>]
     initial_machine
   = Some \<lparr>vars = \<lparr>poolTemp = 70, poolSet = 80, coilTemp = 95, coilSet = 90,
                   statusBuffer = ''PUMP...'' @ [NUL], ledState = 1, pumpState = 1\<rparr>,
           current_state = pump_state, time_in_state = 0\<rparr>"
  by (simp add: loop_def tick_def check_timed_transitions_def make_transition_def
      read_inputs_def rounded_reading_def float_to_int_def c_trunc_def read_setpoint_def
      map_arduino_def signed_divide_int_def initial_machine_def setup_globals_def
      initial_globals_def statusBuffer_size_def LOW_def HIGH_def
      check_pool_temp_def check_coil_temp_def check_coil_primed_def
      transitions_on_simps timed_transitions_from_simps
      enter_heat_state_eq enter_pump_state_eq)

lemma scenario_pump_burst:
  "loop \<lparr>pool_reading = 70, coil_reading = 95, pot_reading = 255, elapsed = 2000\<rparr>
     \<lparr>vars = \<lparr>poolTemp = 70, poolSet = 80, coilTemp = 95, coilSet = 90,
              statusBuffer = ''PUMP...'' @ [NUL], ledState = 1, pumpState = 1\<rparr>,
      current_state = pump_state, time_in_state = 0\<rparr>
   = Some (\<lparr>vars = \<lparr>poolTemp = 70, poolSet = 80, coilTemp = 95, coilSet = 90,
                    statusBuffer = ''PUMP...'' @ [NUL], ledState = 0, pumpState = 0\<rparr>,
            current_state = check_primed_state, time_in_state = 0\<rparr>, NONE)"
  by (simp add: loop_def tick_def check_timed_transitions_def make_transition_def
      read_inputs_def rounded_reading_def float_to_int_def c_trunc_def read_setpoint_def
      map_arduino_def signed_divide_int_def LOW_def
      timed_transitions_from_simps exit_pump_state_eq)

theorem pump_high_exactly_in_pump_state_witness:
  "reachable \<lparr>vars = \<lparr>poolTemp = 70, poolSet = 80, coilTemp = 95, coilSet = 90,
                   statusBuffer = ''PUMP...'' @ [NUL], ledState = 1, pumpState = 1\<rparr>,
              current_state = pump_state, time_in_state = 0\<rparr>
   \<and> pumpState \<lparr>poolTemp = 70, poolSet = 80, coilTemp = 95, coilSet = 90,
                 statusBuffer = ''PUMP...'' @ [NUL], ledState = 1, pumpState = 1\<rparr> = HIGH
   \<and> loop \<lparr>pool_reading = 70, coil_reading = 95, pot_reading = 255, elapsed = 2000\<rparr>
       \<lparr>vars = \<lparr>poolTemp = 70, poolSet = 80, coilTemp = 95, coilSet = 90,
                statusBuffer = ''PUMP...'' @ [NUL], ledState = 1, pumpState = 1\<rparr>,
        current_state = pump_state, time_in_state = 0\<rparr>
     = Some (\<lparr>vars = \<lparr>poolTemp = 70, poolSet = 80, coilTemp = 95, coilSet = 90,
                    statusBuffer = ''PUMP...'' @ [NUL], ledState = 0, pumpState = 0\<rparr>,
            current_state = check_primed_state, time_in_state = 0\<rparr>, NONE)
   \<and> pumpState \<lparr>poolTemp = 70, poolSet = 80, coilTemp = 95, coilSet = 90,
                 statusBuffer = ''PUMP...'' @ [NUL], ledState = 0, pumpState = 0\<rparr> = LOW
   \<and> enter_wait_state \<in> all_actions"
proof -
  let ?m = "\<lparr>vars = \<lparr>poolTemp = 70, poolSet = 80, coilTemp = 95, coilSet = 90,
                   statusBuffer = ''PUMP...'' @ [NUL], ledState = 1, pumpState = 1\<rparr>,
              current_state = pump_state, time_in_state = 0\<rparr>"
  let ?m' = "\<lparr>vars = \<lparr>poolTemp = 70, poolSet = 80, coilTemp = 95, coilSet = 90,
                    statusBuffer = ''PUMP...'' @ [NUL], ledState = 0, pumpState = 0\<rparr>,
            current_state = check_primed_state, time_in_state = 0\<rparr>"
  let ?i = "\<lparr>pool_reading = 70, coil_reading = 95, pot_reading = 255, elapsed = 2000\<rparr>"
  have r: "reachable ?m"
    using run_reachable [OF reachable_initial scenario_to_pump] .
  have a: "enter_wait_state \<in> all_actions"
    by (simp add: all_actions_eq)
  show ?thesis
    using pump_high_exactly_in_pump_state [of initial_globals ?i ?m ?m' NONE]
      r a scenario_pump_burst
    by (simp add: HIGH_def LOW_def)
qed

section \<open>Notifications\<close>

text \<open>
  C6. No registered transition carries the failure chime: each carries the success chime
  or none. Every cycle of the machine, from any state and so from every reachable one,
  ends with no notification or with the success notification, never with the failure
  notification; and no callback of a state sounds a chime.
\<close>

theorem failure_never_notified:
  "map on_transition setup_transitions =
     [Some makeGoodBeep, None, Some makeGoodBeep, Some makeGoodBeep, None, None,
      Some makeGoodBeep, Some makeGoodBeep, None, Some makeGoodBeep]
   \<and> Some makeBadBeep \<notin> set (map on_transition setup_transitions)
   \<and> FAILURE \<notin> set (map (\<lambda>r. notify (on_transition r)) setup_transitions)
   \<and> (\<exists>m' n. loop i m = Some (m', n) \<and> (n = NONE \<or> n = SUCCESS) \<and> n \<noteq> FAILURE)"
proof -
  obtain m' n where l: "loop i m = Some (m', n)"
    using loop_total by blast
  then have "n = NONE \<or> n = SUCCESS"
    unfolding loop_def by (rule tick_notification)
  with l have "\<exists>m' n. loop i m = Some (m', n) \<and> (n = NONE \<or> n = SUCCESS) \<and> n \<noteq> FAILURE"
    by auto
  then show ?thesis by (simp add: setup_transitions_def)
qed

section \<open>The three decisions, in a cycle\<close>

text \<open>
  In a decision state the cycle hands the event of the check to the table: the first
  transition registered for the state and the event fires.
\<close>

lemma tick_fires:
  assumes "on_enter (State_of (current_state m)) = Some (Check c)"
    and "transitions_on (current_state m) (c (vars m)) = r # rs"
  shows "tick dt m = make_transition r m"
  using assms by (simp add: tick_def)

lemma make_transition_to_pump:
  "make_transition (add_transition check_primed_state pump_state COIL_NOT_PRIMED (Some makeGoodBeep)) m
   = Some (\<lparr>vars = (vars m)\<lparr>ledState := HIGH, pumpState := HIGH,
                statusBuffer := ''PUMP...'' @ NUL # drop 8 (statusBuffer (vars m))\<rparr>,
            current_state = pump_state, time_in_state = 0\<rparr>, SUCCESS)"
  by (simp add: make_transition_def enter_pump_state_eq)

lemma make_transition_to_wait:
  "make_transition (add_transition s wait_state e (Some makeGoodBeep)) m
   = (case run_action (on_exit (State_of s)) (vars m) of
        None \<Rightarrow> None
      | Some g1 \<Rightarrow>
          Some (\<lparr>vars = g1\<lparr>statusBuffer := ''WAIT...'' @ NUL # drop 8 (statusBuffer g1)\<rparr>,
                 current_state = wait_state, time_in_state = 0\<rparr>, SUCCESS))"
  by (simp add: make_transition_def enter_wait_state_eq split: option.splits)

lemma make_transition_to_heat:
  "make_transition (add_transition check_pool_state heat_state POOL_NOT_HEATED (Some makeGoodBeep)) m
   = Some (\<lparr>vars = (vars m)\<lparr>statusBuffer := ''HEAT...'' @ NUL # drop 8 (statusBuffer (vars m))\<rparr>,
            current_state = heat_state, time_in_state = 0\<rparr>, SUCCESS)"
  by (simp add: make_transition_def enter_heat_state_eq)

lemma make_transition_to_small_heat:
  "make_transition (add_transition check_coil_state small_heat_state COIL_NOT_READY None) m
   = Some (\<lparr>vars = (vars m)\<lparr>statusBuffer := ''HEAT...'' @ NUL # drop 8 (statusBuffer (vars m))\<rparr>,
            current_state = small_heat_state, time_in_state = 0\<rparr>, NONE)"
  by (simp add: make_transition_def enter_heat_state_eq)

lemma make_transition_to_check_primed:
  "make_transition (add_transition check_coil_state check_primed_state COIL_READY (Some makeGoodBeep)) m
   = Some (\<lparr>vars = vars m, current_state = check_primed_state, time_in_state = 0\<rparr>, SUCCESS)"
  by (simp add: make_transition_def)

lemma tick_primed_to_pump:
  assumes "current_state m = check_primed_state" "check_coil_primed (vars m) = COIL_NOT_PRIMED"
  shows "\<exists>m'. tick dt m = Some (m', SUCCESS) \<and> current_state m' = pump_state
     \<and> pumpState (vars m') = HIGH"
  using assms
  by (simp add: tick_fires [where c = check_coil_primed] transitions_on_simps
      make_transition_to_pump)

lemma tick_primed_to_wait:
  assumes "current_state m = check_primed_state" "check_coil_primed (vars m) = COIL_PRIMED"
  shows "\<exists>m'. tick dt m = Some (m', SUCCESS) \<and> current_state m' = wait_state"
  using assms
  by (simp add: tick_fires [where c = check_coil_primed] transitions_on_simps
      make_transition_to_wait)

lemma tick_pool_to_wait:
  assumes "current_state m = check_pool_state" "check_pool_temp (vars m) = POOL_HEATED"
  shows "\<exists>m'. tick dt m = Some (m', SUCCESS) \<and> current_state m' = wait_state"
  using assms
  by (simp add: tick_fires [where c = check_pool_temp] transitions_on_simps
      make_transition_to_wait)

lemma tick_pool_to_heat:
  assumes "current_state m = check_pool_state" "check_pool_temp (vars m) = POOL_NOT_HEATED"
  shows "\<exists>m'. tick dt m = Some (m', SUCCESS) \<and> current_state m' = heat_state
     \<and> c_str (statusBuffer (vars m')) = ''HEAT...''"
  using assms
  by (simp add: tick_fires [where c = check_pool_temp] transitions_on_simps
      make_transition_to_heat c_str_def NUL_def)

lemma tick_coil_to_check_primed:
  assumes "current_state m = check_coil_state" "check_coil_temp (vars m) = COIL_READY"
  shows "\<exists>m'. tick dt m = Some (m', SUCCESS) \<and> current_state m' = check_primed_state"
  using assms
  by (simp add: tick_fires [where c = check_coil_temp] transitions_on_simps
      make_transition_to_check_primed)

lemma tick_coil_to_small_heat:
  assumes "current_state m = check_coil_state" "check_coil_temp (vars m) = COIL_NOT_READY"
  shows "\<exists>m'. tick dt m = Some (m', NONE) \<and> current_state m' = small_heat_state"
  using assms
  by (simp add: tick_fires [where c = check_coil_temp] transitions_on_simps
      make_transition_to_small_heat)

text \<open>
  C2. In the priming check, for all values of the two globals, the entry callback raises
  COIL_PRIMED exactly when coilTemp <= poolTemp + 2 (the comparison and the addition of
  the program's 16-bit integers) and COIL_NOT_PRIMED otherwise; as long as poolTemp + 2
  does not pass the largest integer, this is the comparison of the numbers themselves.
  The table holds one transition from the priming check for each of the two events, and
  the cycle that finds the machine in the priming check fires it: on COIL_NOT_PRIMED the
  machine goes to the pump state with the success notification (and the pump is on), on
  COIL_PRIMED it goes to the wait state with the success notification. The same holds of
  a pass of the main loop, with the values it has just read.
\<close>

theorem check_coil_primed_decides:
  "on_enter (State_of check_primed_state) = Some (Check check_coil_primed)
   \<and> (check_coil_primed g = COIL_PRIMED \<longleftrightarrow> sint (coilTemp g) \<le> sint (poolTemp g + 2))
   \<and> (check_coil_primed g = COIL_NOT_PRIMED \<longleftrightarrow> \<not> sint (coilTemp g) \<le> sint (poolTemp g + 2))
   \<and> (sint (poolTemp g) \<le> 32765 \<longrightarrow>
        (check_coil_primed g = COIL_PRIMED \<longleftrightarrow> sint (coilTemp g) \<le> sint (poolTemp g) + 2))
   \<and> map (\<lambda>r. (is_timed r, state_to r, notify (on_transition r)))
        (transitions_on check_primed_state COIL_NOT_PRIMED) = [(False, pump_state, SUCCESS)]
   \<and> map (\<lambda>r. (is_timed r, state_to r, notify (on_transition r)))
        (transitions_on check_primed_state COIL_PRIMED) = [(False, wait_state, SUCCESS)]
   \<and> (current_state m = check_primed_state \<and> check_coil_primed (vars m) = COIL_NOT_PRIMED \<longrightarrow>
        (\<exists>m'. tick dt m = Some (m', SUCCESS) \<and> current_state m' = pump_state
           \<and> pumpState (vars m') = HIGH))
   \<and> (current_state m = check_primed_state \<and> check_coil_primed (vars m) = COIL_PRIMED \<longrightarrow>
        (\<exists>m'. tick dt m = Some (m', SUCCESS) \<and> current_state m' = wait_state))
   \<and> (current_state m = check_primed_state
        \<and> check_coil_primed (read_inputs i (vars m)) = COIL_NOT_PRIMED \<longrightarrow>
        (\<exists>m'. loop i m = Some (m', SUCCESS) \<and> current_state m' = pump_state
           \<and> pumpState (vars m') = HIGH))
   \<and> (current_state m = check_primed_state
        \<and> check_coil_primed (read_inputs i (vars m)) = COIL_PRIMED \<longrightarrow>
        (\<exists>m'. loop i m = Some (m', SUCCESS) \<and> current_state m' = wait_state))"
proof -
  have static: "on_enter (State_of check_primed_state) = Some (Check check_coil_primed)
   \<and> (check_coil_primed g = COIL_PRIMED \<longleftrightarrow> sint (coilTemp g) \<le> sint (poolTemp g + 2))
   \<and> (check_coil_primed g = COIL_NOT_PRIMED \<longleftrightarrow> \<not> sint (coilTemp g) \<le> sint (poolTemp g + 2))
   \<and> (sint (poolTemp g) \<le> 32765 \<longrightarrow>
        (check_coil_primed g = COIL_PRIMED \<longleftrightarrow> sint (coilTemp g) \<le> sint (poolTemp g) + 2))
   \<and> map (\<lambda>r. (is_timed r, state_to r, notify (on_transition r)))
        (transitions_on check_primed_state COIL_NOT_PRIMED) = [(False, pump_state, SUCCESS)]
   \<and> map (\<lambda>r. (is_timed r, state_to r, notify (on_transition r)))
        (transitions_on check_primed_state COIL_PRIMED) = [(False, wait_state, SUCCESS)]"
    by (simp add: check_coil_primed_def transitions_on_simps sint_plus_2)
  have t1: "current_state m = check_primed_state \<and> check_coil_primed (vars m) = COIL_NOT_PRIMED \<longrightarrow>
        (\<exists>m'. tick dt m = Some (m', SUCCESS) \<and> current_state m' = pump_state
           \<and> pumpState (vars m') = HIGH)"
    by (blast intro: tick_primed_to_pump)
  have t2: "current_state m = check_primed_state \<and> check_coil_primed (vars m) = COIL_PRIMED \<longrightarrow>
        (\<exists>m'. tick dt m = Some (m', SUCCESS) \<and> current_state m' = wait_state)"
    by (blast intro: tick_primed_to_wait)
  have l1: "current_state m = check_primed_state
        \<and> check_coil_primed (read_inputs i (vars m)) = COIL_NOT_PRIMED \<longrightarrow>
        (\<exists>m'. loop i m = Some (m', SUCCESS) \<and> current_state m' = pump_state
           \<and> pumpState (vars m') = HIGH)"
    unfolding loop_def
    using tick_primed_to_pump [of "m\<lparr>vars := read_inputs i (vars m)\<rparr>" "elapsed i"] by simp
  have l2: "current_state m = check_primed_state
        \<and> check_coil_primed (read_inputs i (vars m)) = COIL_PRIMED \<longrightarrow>
        (\<exists>m'. loop i m = Some (m', SUCCESS) \<and> current_state m' = wait_state)"
    unfolding loop_def
    using tick_primed_to_wait [of "m\<lparr>vars := read_inputs i (vars m)\<rparr>" "elapsed i"] by simp
  from static t1 t2 l1 l2 show ?thesis by blast
qed

theorem check_coil_primed_decides_witness:
  "sint (poolTemp (vars (\<lparr>vars = \<lparr>poolTemp = 70, poolSet = 80, coilTemp = 95, coilSet = 90,
          statusBuffer = ''HEAT...'' @ [NUL], ledState = 0, pumpState = 0\<rparr>,
        current_state = check_primed_state, time_in_state = 0\<rparr>))) \<le> 32765
   \<and> current_state (\<lparr>vars = \<lparr>poolTemp = 70, poolSet = 80, coilTemp = 95, coilSet = 90,
          statusBuffer = ''HEAT...'' @ [NUL], ledState = 0, pumpState = 0\<rparr>,
        current_state = check_primed_state, time_in_state = 0\<rparr>) = check_primed_state
   \<and> check_coil_primed (vars (\<lparr>vars = \<lparr>poolTemp = 70, poolSet = 80, coilTemp = 95, coilSet = 90,
          statusBuffer = ''HEAT...'' @ [NUL], ledState = 0, pumpState = 0\<rparr>,
        current_state = check_primed_state, time_in_state = 0\<rparr>)) = COIL_NOT_PRIMED
   \<and> tick 100 (\<lparr>vars = \<lparr>poolTemp = 70, poolSet = 80, coilTemp = 95, coilSet = 90,
          statusBuffer = ''HEAT...'' @ [NUL], ledState = 0, pumpState = 0\<rparr>,
        current_state = check_primed_state, time_in_state = 0\<rparr>) = Some (\<lparr>vars = \<lparr>poolTemp = 70, poolSet = 80, coilTemp = 95, coilSet = 90,
          statusBuffer = ''PUMP...'' @ [NUL], ledState = 1, pumpState = 1\<rparr>,
        current_state = pump_state, time_in_state = 0\<rparr>, SUCCESS)
   \<and> check_coil_primed (read_inputs (\<lparr>pool_reading = 70, coil_reading = 95, pot_reading = 255, elapsed = 100\<rparr>) (vars (\<lparr>vars = \<lparr>poolTemp = 70, poolSet = 80, coilTemp = 95, coilSet = 90,
          statusBuffer = ''HEAT...'' @ [NUL], ledState = 0, pumpState = 0\<rparr>,
        current_state = check_primed_state, time_in_state = 0\<rparr>))) = COIL_NOT_PRIMED
   \<and> loop (\<lparr>pool_reading = 70, coil_reading = 95, pot_reading = 255, elapsed = 100\<rparr>) (\<lparr>vars = \<lparr>poolTemp = 70, poolSet = 80, coilTemp = 95, coilSet = 90,
          statusBuffer = ''HEAT...'' @ [NUL], ledState = 0, pumpState = 0\<rparr>,
        current_state = check_primed_state, time_in_state = 0\<rparr>) = Some (\<lparr>vars = \<lparr>poolTemp = 70, poolSet = 80, coilTemp = 95, coilSet = 90,
          statusBuffer = ''PUMP...'' @ [NUL], ledState = 1, pumpState = 1\<rparr>,
        current_state = pump_state, time_in_state = 0\<rparr>, SUCCESS)
   \<and> current_state (\<lparr>vars = \<lparr>poolTemp = 70, poolSet = 80, coilTemp = 71, coilSet = 90,
          statusBuffer = ''HEAT...'' @ [NUL], ledState = 0, pumpState = 0\<rparr>,
        current_state = check_primed_state, time_in_state = 0\<rparr>) = check_primed_state
   \<and> check_coil_primed (vars (\<lparr>vars = \<lparr>poolTemp = 70, poolSet = 80, coilTemp = 71, coilSet = 90,
          statusBuffer = ''HEAT...'' @ [NUL], ledState = 0, pumpState = 0\<rparr>,
        current_state = check_primed_state, time_in_state = 0\<rparr>)) = COIL_PRIMED
   \<and> tick 100 (\<lparr>vars = \<lparr>poolTemp = 70, poolSet = 80, coilTemp = 71, coilSet = 90,
          statusBuffer = ''HEAT...'' @ [NUL], ledState = 0, pumpState = 0\<rparr>,
        current_state = check_primed_state, time_in_state = 0\<rparr>) = Some (\<lparr>vars = \<lparr>poolTemp = 70, poolSet = 80, coilTemp = 71, coilSet = 90,
          statusBuffer = ''WAIT...'' @ [NUL], ledState = 0, pumpState = 0\<rparr>,
        current_state = wait_state, time_in_state = 0\<rparr>, SUCCESS)
   \<and> check_coil_primed (read_inputs (\<lparr>pool_reading = 70, coil_reading = 71, pot_reading = 255, elapsed = 100\<rparr>) (vars (\<lparr>vars = \<lparr>poolTemp = 70, poolSet = 80, coilTemp = 71, coilSet = 90,
          statusBuffer = ''HEAT...'' @ [NUL], ledState = 0, pumpState = 0\<rparr>,
        current_state = check_primed_state, time_in_state = 0\<rparr>))) = COIL_PRIMED
   \<and> loop (\<lparr>pool_reading = 70, coil_reading = 71, pot_reading = 255, elapsed = 100\<rparr>) (\<lparr>vars = \<lparr>poolTemp = 70, poolSet = 80, coilTemp = 71, coilSet = 90,
          statusBuffer = ''HEAT...'' @ [NUL], ledState = 0, pumpState = 0\<rparr>,
        current_state = check_primed_state, time_in_state = 0\<rparr>) = Some (\<lparr>vars = \<lparr>poolTemp = 70, poolSet = 80, coilTemp = 71, coilSet = 90,
          statusBuffer = ''WAIT...'' @ [NUL], ledState = 0, pumpState = 0\<rparr>,
        current_state = wait_state, time_in_state = 0\<rparr>, SUCCESS)"
proof -
  let ?m1 = "\<lparr>vars = \<lparr>poolTemp = 70, poolSet = 80, coilTemp = 95, coilSet = 90,
          statusBuffer = ''HEAT...'' @ [NUL], ledState = 0, pumpState = 0\<rparr>,
        current_state = check_primed_state, time_in_state = 0\<rparr>"
  let ?i1 = "\<lparr>pool_reading = 70, coil_reading = 95, pot_reading = 255, elapsed = 100\<rparr>"
  let ?m2 = "\<lparr>vars = \<lparr>poolTemp = 70, poolSet = 80, coilTemp = 71, coilSet = 90,
          statusBuffer = ''HEAT...'' @ [NUL], ledState = 0, pumpState = 0\<rparr>,
        current_state = check_primed_state, time_in_state = 0\<rparr>"
  let ?i2 = "\<lparr>pool_reading = 70, coil_reading = 71, pot_reading = 255, elapsed = 100\<rparr>"
  show ?thesis
    using check_coil_primed_decides [of "vars ?m1" ?m1 100 ?i1]
      check_coil_primed_decides [of "vars ?m2" ?m2 100 ?i2]
    by (simp add: loop_def tick_def make_transition_def read_inputs_def rounded_reading_def
        float_to_int_def c_trunc_def read_setpoint_def map_arduino_def signed_divide_int_def
        check_pool_temp_def check_coil_temp_def check_coil_primed_def HIGH_def
        transitions_on_simps enter_wait_state_eq enter_heat_state_eq enter_pump_state_eq)
qed

text \<open>
  C3. In the pool check, for all values of the two globals, the entry callback raises
  POOL_HEATED exactly when poolTemp >= poolSet and POOL_NOT_HEATED otherwise. The table
  holds one transition from the pool check for each of the two events, and the cycle that
  finds the machine in the pool check fires it: on POOL_HEATED the machine goes to the
  wait state with the success notification; on POOL_NOT_HEATED it goes to the heat state
  with the success notification, and the status label is then "HEAT...". The same holds
  of a pass of the main loop, with the values it has just read.
\<close>

theorem check_pool_temp_decides:
  "on_enter (State_of check_pool_state) = Some (Check check_pool_temp)
   \<and> (check_pool_temp g = POOL_HEATED \<longleftrightarrow> sint (poolTemp g) \<ge> sint (poolSet g))
   \<and> (check_pool_temp g = POOL_NOT_HEATED \<longleftrightarrow> \<not> sint (poolTemp g) \<ge> sint (poolSet g))
   \<and> map (\<lambda>r. (is_timed r, state_to r, notify (on_transition r)))
        (transitions_on check_pool_state POOL_HEATED) = [(False, wait_state, SUCCESS)]
   \<and> map (\<lambda>r. (is_timed r, state_to r, notify (on_transition r)))
        (transitions_on check_pool_state POOL_NOT_HEATED) = [(False, heat_state, SUCCESS)]
   \<and> on_enter (State_of heat_state) = Some (Action enter_heat_state)
   \<and> (\<exists>g'. enter_heat_state g = Some g' \<and> c_str (statusBuffer g') = ''HEAT...'')
   \<and> (current_state m = check_pool_state \<and> check_pool_temp (vars m) = POOL_HEATED \<longrightarrow>
        (\<exists>m'. tick dt m = Some (m', SUCCESS) \<and> current_state m' = wait_state))
   \<and> (current_state m = check_pool_state \<and> check_pool_temp (vars m) = POOL_NOT_HEATED \<longrightarrow>
        (\<exists>m'. tick dt m = Some (m', SUCCESS) \<and> current_state m' = heat_state
           \<and> c_str (statusBuffer (vars m')) = ''HEAT...''))
   \<and> (current_state m = check_pool_state
        \<and> check_pool_temp (read_inputs i (vars m)) = POOL_HEATED \<longrightarrow>
        (\<exists>m'. loop i m = Some (m', SUCCESS) \<and> current_state m' = wait_state))
   \<and> (current_state m = check_pool_state
        \<and> check_pool_temp (read_inputs i (vars m)) = POOL_NOT_HEATED \<longrightarrow>
        (\<exists>m'. loop i m = Some (m', SUCCESS) \<and> current_state m' = heat_state
           \<and> c_str (statusBuffer (vars m')) = ''HEAT...''))"
proof -
  have static: "on_enter (State_of check_pool_state) = Some (Check check_pool_temp)
   \<and> (check_pool_temp g = POOL_HEATED \<longleftrightarrow> sint (poolTemp g) \<ge> sint (poolSet g))
   \<and> (check_pool_temp g = POOL_NOT_HEATED \<longleftrightarrow> \<not> sint (poolTemp g) \<ge> sint (poolSet g))
   \<and> map (\<lambda>r. (is_timed r, state_to r, notify (on_transition r)))
        (transitions_on check_pool_state POOL_HEATED) = [(False, wait_state, SUCCESS)]
   \<and> map (\<lambda>r. (is_timed r, state_to r, notify (on_transition r)))
        (transitions_on check_pool_state POOL_NOT_HEATED) = [(False, heat_state, SUCCESS)]
   \<and> on_enter (State_of heat_state) = Some (Action enter_heat_state)
   \<and> (\<exists>g'. enter_heat_state g = Some g' \<and> c_str (statusBuffer g') = ''HEAT...'')"
    by (simp add: check_pool_temp_def transitions_on_simps entry_labels)
  have t1: "current_state m = check_pool_state \<and> check_pool_temp (vars m) = POOL_HEATED \<longrightarrow>
        (\<exists>m'. tick dt m = Some (m', SUCCESS) \<and> current_state m' = wait_state)"
    by (blast intro: tick_pool_to_wait)
  have t2: "current_state m = check_pool_state \<and> check_pool_temp (vars m) = POOL_NOT_HEATED \<longrightarrow>
        (\<exists>m'. tick dt m = Some (m', SUCCESS) \<and> current_state m' = heat_state
           \<and> c_str (statusBuffer (vars m')) = ''HEAT...'')"
    by (blast intro: tick_pool_to_heat)
  have l1: "current_state m = check_pool_state
        \<and> check_pool_temp (read_inputs i (vars m)) = POOL_HEATED \<longrightarrow>
        (\<exists>m'. loop i m = Some (m', SUCCESS) \<and> current_state m' = wait_state)"
    unfolding loop_def
    using tick_pool_to_wait [of "m\<lparr>vars := read_inputs i (vars m)\<rparr>" "elapsed i"] by simp
  have l2: "current_state m = check_pool_state
        \<and> check_pool_temp (read_inputs i (vars m)) = POOL_NOT_HEATED \<longrightarrow>
        (\<exists>m'. loop i m = Some (m', SUCCESS) \<and> current_state m' = heat_state
           \<and> c_str (statusBuffer (vars m')) = ''HEAT...'')"
    unfolding loop_def
    using tick_pool_to_heat [of "m\<lparr>vars := read_inputs i (vars m)\<rparr>" "elapsed i"] by simp
  from static t1 t2 l1 l2 show ?thesis by blast
qed

theorem check_pool_temp_decides_witness:
  "c_str (statusBuffer (vars (\<lparr>vars = \<lparr>poolTemp = 70, poolSet = 80, coilTemp = 0, coilSet = 90,
          statusBuffer = ''HEAT...'' @ [NUL], ledState = 0, pumpState = 0\<rparr>,
        current_state = heat_state, time_in_state = 0\<rparr>))) = ''HEAT...''
   \<and> current_state (\<lparr>vars = \<lparr>poolTemp = 70, poolSet = 80, coilTemp = 0, coilSet = 90,
          statusBuffer = replicate 8 NUL, ledState = 0, pumpState = 0\<rparr>,
        current_state = check_pool_state, time_in_state = 0\<rparr>) = check_pool_state
   \<and> check_pool_temp (vars (\<lparr>vars = \<lparr>poolTemp = 70, poolSet = 80, coilTemp = 0, coilSet = 90,
          statusBuffer = replicate 8 NUL, ledState = 0, pumpState = 0\<rparr>,
        current_state = check_pool_state, time_in_state = 0\<rparr>)) = POOL_NOT_HEATED
   \<and> tick 100 (\<lparr>vars = \<lparr>poolTemp = 70, poolSet = 80, coilTemp = 0, coilSet = 90,
          statusBuffer = replicate 8 NUL, ledState = 0, pumpState = 0\<rparr>,
        current_state = check_pool_state, time_in_state = 0\<rparr>) = Some (\<lparr>vars = \<lparr>poolTemp = 70, poolSet = 80, coilTemp = 0, coilSet = 90,
          statusBuffer = ''HEAT...'' @ [NUL], ledState = 0, pumpState = 0\<rparr>,
        current_state = heat_state, time_in_state = 0\<rparr>, SUCCESS)
   \<and> check_pool_temp (read_inputs (\<lparr>pool_reading = 70, coil_reading = 0, pot_reading = 255, elapsed = 100\<rparr>) (vars (\<lparr>vars = \<lparr>poolTemp = 70, poolSet = 80, coilTemp = 0, coilSet = 90,
          statusBuffer = replicate 8 NUL, ledState = 0, pumpState = 0\<rparr>,
        current_state = check_pool_state, time_in_state = 0\<rparr>))) = POOL_NOT_HEATED
   \<and> loop (\<lparr>pool_reading = 70, coil_reading = 0, pot_reading = 255, elapsed = 100\<rparr>) (\<lparr>vars = \<lparr>poolTemp = 70, poolSet = 80, coilTemp = 0, coilSet = 90,
          statusBuffer = replicate 8 NUL, ledState = 0, pumpState = 0\<rparr>,
        current_state = check_pool_state, time_in_state = 0\<rparr>) = Some (\<lparr>vars = \<lparr>poolTemp = 70, poolSet = 80, coilTemp = 0, coilSet = 90,
          statusBuffer = ''HEAT...'' @ [NUL], ledState = 0, pumpState = 0\<rparr>,
        current_state = heat_state, time_in_state = 0\<rparr>, SUCCESS)
   \<and> current_state (\<lparr>vars = \<lparr>poolTemp = 85, poolSet = 80, coilTemp = 0, coilSet = 90,
          statusBuffer = replicate 8 NUL, ledState = 0, pumpState = 0\<rparr>,
        current_state = check_pool_state, time_in_state = 0\<rparr>) = check_pool_state
   \<and> check_pool_temp (vars (\<lparr>vars = \<lparr>poolTemp = 85, poolSet = 80, coilTemp = 0, coilSet = 90,
          statusBuffer = replicate 8 NUL, ledState = 0, pumpState = 0\<rparr>,
        current_state = check_pool_state, time_in_state = 0\<rparr>)) = POOL_HEATED
   \<and> tick 100 (\<lparr>vars = \<lparr>poolTemp = 85, poolSet = 80, coilTemp = 0, coilSet = 90,
          statusBuffer = replicate 8 NUL, ledState = 0, pumpState = 0\<rparr>,
        current_state = check_pool_state, time_in_state = 0\<rparr>) = Some (\<lparr>vars = \<lparr>poolTemp = 85, poolSet = 80, coilTemp = 0, coilSet = 90,
          statusBuffer = ''WAIT...'' @ [NUL], ledState = 0, pumpState = 0\<rparr>,
        current_state = wait_state, time_in_state = 0\<rparr>, SUCCESS)
   \<and> check_pool_temp (read_inputs (\<lparr>pool_reading = 85, coil_reading = 0, pot_reading = 255, elapsed = 100\<rparr>) (vars (\<lparr>vars = \<lparr>poolTemp = 85, poolSet = 80, coilTemp = 0, coilSet = 90,
          statusBuffer = replicate 8 NUL, ledState = 0, pumpState = 0\<rparr>,
        current_state = check_pool_state, time_in_state = 0\<rparr>))) = POOL_HEATED
   \<and> loop (\<lparr>pool_reading = 85, coil_reading = 0, pot_reading = 255, elapsed = 100\<rparr>) (\<lparr>vars = \<lparr>poolTemp = 85, poolSet = 80, coilTemp = 0, coilSet = 90,
          statusBuffer = replicate 8 NUL, ledState = 0, pumpState = 0\<rparr>,
        current_state = check_pool_state, time_in_state = 0\<rparr>) = Some (\<lparr>vars = \<lparr>poolTemp = 85, poolSet = 80, coilTemp = 0, coilSet = 90,
          statusBuffer = ''WAIT...'' @ [NUL], ledState = 0, pumpState = 0\<rparr>,
        current_state = wait_state, time_in_state = 0\<rparr>, SUCCESS)"
proof -
  let ?m1 = "\<lparr>vars = \<lparr>poolTemp = 70, poolSet = 80, coilTemp = 0, coilSet = 90,
          statusBuffer = replicate 8 NUL, ledState = 0, pumpState = 0\<rparr>,
        current_state = check_pool_state, time_in_state = 0\<rparr>"
  let ?i1 = "\<lparr>pool_reading = 70, coil_reading = 0, pot_reading = 255, elapsed = 100\<rparr>"
  let ?m2 = "\<lparr>vars = \<lparr>poolTemp = 85, poolSet = 80, coilTemp = 0, coilSet = 90,
          statusBuffer = replicate 8 NUL, ledState = 0, pumpState = 0\<rparr>,
        current_state = check_pool_state, time_in_state = 0\<rparr>"
  let ?i2 = "\<lparr>pool_reading = 85, coil_reading = 0, pot_reading = 255, elapsed = 100\<rparr>"
  show ?thesis
    using check_pool_temp_decides [of "vars ?m1" ?m1 100 ?i1]
      check_pool_temp_decides [of "vars ?m2" ?m2 100 ?i2]
    by (simp add: loop_def tick_def make_transition_def read_inputs_def rounded_reading_def
        float_to_int_def c_trunc_def read_setpoint_def map_arduino_def signed_divide_int_def
        check_pool_temp_def check_coil_temp_def check_coil_primed_def HIGH_def
        c_str_def NUL_def transitions_on_simps enter_wait_state_eq enter_heat_state_eq enter_pump_state_eq)
qed

text \<open>
  C4. In the coil check, for all values of the two globals, the entry callback raises
  COIL_READY exactly when coilTemp >= coilSet and COIL_NOT_READY otherwise. The table
  holds one transition from the coil check for each of the two events, and the cycle that
  finds the machine in the coil check fires it: on COIL_READY the machine goes to the
  priming check with the success notification, on COIL_NOT_READY it goes to the small
  heat state with no notification. The same holds of a pass of the main loop, with the
  values it has just read.
\<close>

theorem check_coil_temp_decides:
  "on_enter (State_of check_coil_state) = Some (Check check_coil_temp)
   \<and> (check_coil_temp g = COIL_READY \<longleftrightarrow> sint (coilTemp g) \<ge> sint (coilSet g))
   \<and> (check_coil_temp g = COIL_NOT_READY \<longleftrightarrow> \<not> sint (coilTemp g) \<ge> sint (coilSet g))
   \<and> map (\<lambda>r. (is_timed r, state_to r, notify (on_transition r)))
        (transitions_on check_coil_state COIL_READY) = [(False, check_primed_state, SUCCESS)]
   \<and> map (\<lambda>r. (is_timed r, state_to r, notify (on_transition r)))
        (transitions_on check_coil_state COIL_NOT_READY) = [(False, small_heat_state, NONE)]
   \<and> (current_state m = check_coil_state \<and> check_coil_temp (vars m) = COIL_READY \<longrightarrow>
        (\<exists>m'. tick dt m = Some (m', SUCCESS) \<and> current_state m' = check_primed_state))
   \<and> (current_state m = check_coil_state \<and> check_coil_temp (vars m) = COIL_NOT_READY \<longrightarrow>
        (\<exists>m'. tick dt m = Some (m', NONE) \<and> current_state m' = small_heat_state))
   \<and> (current_state m = check_coil_state
        \<and> check_coil_temp (read_inputs i (vars m)) = COIL_READY \<longrightarrow>
        (\<exists>m'. loop i m = Some (m', SUCCESS) \<and> current_state m' = check_primed_state))
   \<and> (current_state m = check_coil_state
        \<and> check_coil_temp (read_inputs i (vars m)) = COIL_NOT_READY \<longrightarrow>
        (\<exists>m'. loop i m = Some (m', NONE) \<and> current_state m' = small_heat_state))"
proof -
  have static: "on_enter (State_of check_coil_state) = Some (Check check_coil_temp)
   \<and> (check_coil_temp g = COIL_READY \<longleftrightarrow> sint (coilTemp g) \<ge> sint (coilSet g))
   \<and> (check_coil_temp g = COIL_NOT_READY \<longleftrightarrow> \<not> sint (coilTemp g) \<ge> sint (coilSet g))
   \<and> map (\<lambda>r. (is_timed r, state_to r, notify (on_transition r)))
        (transitions_on check_coil_state COIL_READY) = [(False, check_primed_state, SUCCESS)]
   \<and> map (\<lambda>r. (is_timed r, state_to r, notify (on_transition r)))
        (transitions_on check_coil_state COIL_NOT_READY) = [(False, small_heat_state, NONE)]"
    by (simp add: check_coil_temp_def transitions_on_simps)
  have t1: "current_state m = check_coil_state \<and> check_coil_temp (vars m) = COIL_READY \<longrightarrow>
        (\<exists>m'. tick dt m = Some (m', SUCCESS) \<and> current_state m' = check_primed_state)"
    by (blast intro: tick_coil_to_check_primed)
  have t2: "current_state m = check_coil_state \<and> check_coil_temp (vars m) = COIL_NOT_READY \<longrightarrow>
        (\<exists>m'. tick dt m = Some (m', NONE) \<and> current_state m' = small_heat_state)"
    by (blast intro: tick_coil_to_small_heat)
  have l1: "current_state m = check_coil_state
        \<and> check_coil_temp (read_inputs i (vars m)) = COIL_READY \<longrightarrow>
        (\<exists>m'. loop i m = Some (m', SUCCESS) \<and> current_state m' = check_primed_state)"
    unfolding loop_def
    using tick_coil_to_check_primed [of "m\<lparr>vars := read_inputs i (vars m)\<rparr>" "elapsed i"]
    by simp
  have l2: "current_state m = check_coil_state
        \<and> check_coil_temp (read_inputs i (vars m)) = COIL_NOT_READY \<longrightarrow>
        (\<exists>m'. loop i m = Some (m', NONE) \<and> current_state m' = small_heat_state)"
    unfolding loop_def
    using tick_coil_to_small_heat [of "m\<lparr>vars := read_inputs i (vars m)\<rparr>" "elapsed i"]
    by simp
  from static t1 t2 l1 l2 show ?thesis by blast
qed

theorem check_coil_temp_decides_witness:
  "current_state (\<lparr>vars = \<lparr>poolTemp = 70, poolSet = 80, coilTemp = 95, coilSet = 90,
          statusBuffer = ''HEAT...'' @ [NUL], ledState = 0, pumpState = 0\<rparr>,
        current_state = check_coil_state, time_in_state = 0\<rparr>) = check_coil_state
   \<and> check_coil_temp (vars (\<lparr>vars = \<lparr>poolTemp = 70, poolSet = 80, coilTemp = 95, coilSet = 90,
          statusBuffer = ''HEAT...'' @ [NUL], ledState = 0, pumpState = 0\<rparr>,
        current_state = check_coil_state, time_in_state = 0\<rparr>)) = COIL_READY
   \<and> tick 100 (\<lparr>vars = \<lparr>poolTemp = 70, poolSet = 80, coilTemp = 95, coilSet = 90,
          statusBuffer = ''HEAT...'' @ [NUL], ledState = 0, pumpState = 0\<rparr>,
        current_state = check_coil_state, time_in_state = 0\<rparr>) = Some (\<lparr>vars = \<lparr>poolTemp = 70, poolSet = 80, coilTemp = 95, coilSet = 90,
          statusBuffer = ''HEAT...'' @ [NUL], ledState = 0, pumpState = 0\<rparr>,
        current_state = check_primed_state, time_in_state = 0\<rparr>, SUCCESS)
   \<and> check_coil_temp (read_inputs (\<lparr>pool_reading = 70, coil_reading = 95, pot_reading = 255, elapsed = 100\<rparr>) (vars (\<lparr>vars = \<lparr>poolTemp = 70, poolSet = 80, coilTemp = 95, coilSet = 90,
          statusBuffer = ''HEAT...'' @ [NUL], ledState = 0, pumpState = 0\<rparr>,
        current_state = check_coil_state, time_in_state = 0\<rparr>))) = COIL_READY
   \<and> loop (\<lparr>pool_reading = 70, coil_reading = 95, pot_reading = 255, elapsed = 100\<rparr>) (\<lparr>vars = \<lparr>poolTemp = 70, poolSet = 80, coilTemp = 95, coilSet = 90,
          statusBuffer = ''HEAT...'' @ [NUL], ledState = 0, pumpState = 0\<rparr>,
        current_state = check_coil_state, time_in_state = 0\<rparr>) = Some (\<lparr>vars = \<lparr>poolTemp = 70, poolSet = 80, coilTemp = 95, coilSet = 90,
          statusBuffer = ''HEAT...'' @ [NUL], ledState = 0, pumpState = 0\<rparr>,
        current_state = check_primed_state, time_in_state = 0\<rparr>, SUCCESS)
   \<and> current_state (\<lparr>vars = \<lparr>poolTemp = 70, poolSet = 80, coilTemp = 85, coilSet = 90,
          statusBuffer = ''HEAT...'' @ [NUL], ledState = 0, pumpState = 0\<rparr>,
        current_state = check_coil_state, time_in_state = 0\<rparr>) = check_coil_state
   \<and> check_coil_temp (vars (\<lparr>vars = \<lparr>poolTemp = 70, poolSet = 80, coilTemp = 85, coilSet = 90,
          statusBuffer = ''HEAT...'' @ [NUL], ledState = 0, pumpState = 0\<rparr>,
        current_state = check_coil_state, time_in_state = 0\<rparr>)) = COIL_NOT_READY
   \<and> tick 100 (\<lparr>vars = \<lparr>poolTemp = 70, poolSet = 80, coilTemp = 85, coilSet = 90,
          statusBuffer = ''HEAT...'' @ [NUL], ledState = 0, pumpState = 0\<rparr>,
        current_state = check_coil_state, time_in_state = 0\<rparr>) = Some (\<lparr>vars = \<lparr>poolTemp = 70, poolSet = 80, coilTemp = 85, coilSet = 90,
          statusBuffer = ''HEAT...'' @ [NUL], ledState = 0, pumpState = 0\<rparr>,
        current_state = small_heat_state, time_in_state = 0\<rparr>, NONE)
   \<and> check_coil_temp (read_inputs (\<lparr>pool_reading = 70, coil_reading = 85, pot_reading = 255, elapsed = 100\<rparr>) (vars (\<lparr>vars = \<lparr>poolTemp = 70, poolSet = 80, coilTemp = 85, coilSet = 90,
          statusBuffer = ''HEAT...'' @ [NUL], ledState = 0, pumpState = 0\<rparr>,
        current_state = check_coil_state, time_in_state = 0\<rparr>))) = COIL_NOT_READY
   \<and> loop (\<lparr>pool_reading = 70, coil_reading = 85, pot_reading = 255, elapsed = 100\<rparr>) (\<lparr>vars = \<lparr>poolTemp = 70, poolSet = 80, coilTemp = 85, coilSet = 90,
          statusBuffer = ''HEAT...'' @ [NUL], ledState = 0, pumpState = 0\<rparr>,
        current_state = check_coil_state, time_in_state = 0\<rparr>) = Some (\<lparr>vars = \<lparr>poolTemp = 70, poolSet = 80, coilTemp = 85, coilSet = 90,
          statusBuffer = ''HEAT...'' @ [NUL], ledState = 0, pumpState = 0\<rparr>,
        current_state = small_heat_state, time_in_state = 0\<rparr>, NONE)"
proof -
  let ?m1 = "\<lparr>vars = \<lparr>poolTemp = 70, poolSet = 80, coilTemp = 95, coilSet = 90,
          statusBuffer = ''HEAT...'' @ [NUL], ledState = 0, pumpState = 0\<rparr>,
        current_state = check_coil_state, time_in_state = 0\<rparr>"
  let ?i1 = "\<lparr>pool_reading = 70, coil_reading = 95, pot_reading = 255, elapsed = 100\<rparr>"
  let ?m2 = "\<lparr>vars = \<lparr>poolTemp = 70, poolSet = 80, coilTemp = 85, coilSet = 90,
          statusBuffer = ''HEAT...'' @ [NUL], ledState = 0, pumpState = 0\<rparr>,
        current_state = check_coil_state, time_in_state = 0\<rparr>"
  let ?i2 = "\<lparr>pool_reading = 70, coil_reading = 85, pot_reading = 255, elapsed = 100\<rparr>"
  show ?thesis
    using check_coil_temp_decides [of "vars ?m1" ?m1 100 ?i1]
      check_coil_temp_decides [of "vars ?m2" ?m2 100 ?i2]
    by (simp add: loop_def tick_def make_transition_def read_inputs_def rounded_reading_def
        float_to_int_def c_trunc_def read_setpoint_def map_arduino_def signed_divide_int_def
        check_pool_temp_def check_coil_temp_def check_coil_primed_def HIGH_def
        transitions_on_simps enter_wait_state_eq enter_heat_state_eq enter_pump_state_eq)
qed

end
